theory Spec2Isabelle
  imports Complex_Main "HOL-Library.Multiset"
begin

section \<open>JavaScript values\<close>

text \<open>
  The values that flow through the routing conditions, the routing context and the
  status table.  Numbers are exact rationals with the three non-finite values of
  JavaScript; rounding and overflow of doubles are outside the model.
  \<open>JInherited k\<close> is the member \<open>k\<close> that every plain object inherits from
  \<open>Object.prototype\<close> (a function, or the prototype itself for \<open>__proto__\<close>).
\<close>

datatype jsnum = NaN | NegInf | Fin rat | PosInf

datatype jsval =
    JUndefined
  | JNull
  | JBool bool
  | JNum jsnum
  | JStr string
  | JArr "jsval list"
  | JObj "(string \<times> jsval) list"
  | JInherited string

definition objectPrototypeKeys :: "string list" where
  "objectPrototypeKeys =
     [''constructor'', ''__defineGetter__'', ''__defineSetter__'', ''hasOwnProperty'',
      ''__lookupGetter__'', ''__lookupSetter__'', ''isPrototypeOf'',
      ''propertyIsEnumerable'', ''toString'', ''valueOf'', ''__proto__'',
      ''toLocaleString'']"

text \<open>Property read \<open>obj[key]\<close> on a plain object with the given own properties.\<close>

definition js_get :: "(string \<times> jsval) list \<Rightarrow> string \<Rightarrow> jsval" where
  "js_get props key =
     (case map_of props key of
        Some v \<Rightarrow> v
      | None \<Rightarrow> if key \<in> set objectPrototypeKeys then JInherited key else JUndefined)"

text \<open>The \<open>in\<close> operator: own properties, then the prototype.\<close>

definition js_in :: "string \<Rightarrow> (string \<times> jsval) list \<Rightarrow> bool" where
  "js_in key props \<longleftrightarrow> key \<in> fst ` set props \<or> key \<in> set objectPrototypeKeys"

fun truthy :: "jsval \<Rightarrow> bool" where
  "truthy JUndefined = False"
| "truthy JNull = False"
| "truthy (JBool b) = b"
| "truthy (JNum n) = (n \<noteq> NaN \<and> n \<noteq> Fin 0)"
| "truthy (JStr s) = (s \<noteq> [])"
| "truthy (JArr _) = True"
| "truthy (JObj _) = True"
| "truthy (JInherited _) = True"

section \<open>Numbers\<close>

text \<open>Arithmetic and comparison of JavaScript numbers: \<open>NaN\<close> is absorbing and
  compares false with everything.\<close>

fun js_neg :: "jsnum \<Rightarrow> jsnum" where
  "js_neg NaN = NaN"
| "js_neg NegInf = PosInf"
| "js_neg PosInf = NegInf"
| "js_neg (Fin x) = Fin (- x)"

fun js_add :: "jsnum \<Rightarrow> jsnum \<Rightarrow> jsnum" where
  "js_add NaN _ = NaN"
| "js_add _ NaN = NaN"
| "js_add (Fin x) (Fin y) = Fin (x + y)"
| "js_add PosInf NegInf = NaN"
| "js_add NegInf PosInf = NaN"
| "js_add PosInf _ = PosInf"
| "js_add NegInf _ = NegInf"
| "js_add (Fin x) y = y"

fun js_sign :: "jsnum \<Rightarrow> int" where
  "js_sign (Fin x) = (if x < 0 then - 1 else if x = 0 then 0 else 1)"
| "js_sign PosInf = 1"
| "js_sign NegInf = - 1"
| "js_sign NaN = 0"

fun js_mul :: "jsnum \<Rightarrow> jsnum \<Rightarrow> jsnum" where
  "js_mul NaN _ = NaN"
| "js_mul _ NaN = NaN"
| "js_mul (Fin x) (Fin y) = Fin (x * y)"
| "js_mul a b =
     (if js_sign a * js_sign b = 0 then NaN
      else if js_sign a * js_sign b < 0 then NegInf else PosInf)"

fun js_le :: "jsnum \<Rightarrow> jsnum \<Rightarrow> bool" where
  "js_le NaN _ = False"
| "js_le _ NaN = False"
| "js_le NegInf _ = True"
| "js_le _ PosInf = True"
| "js_le (Fin x) (Fin y) = (x \<le> y)"
| "js_le _ _ = False"

definition js_ge :: "jsnum \<Rightarrow> jsnum \<Rightarrow> bool" where
  "js_ge a b = js_le b a"

subsection \<open>\<open>Number(string)\<close>\<close>

text \<open>
  The numeric literals a string may hold: surrounding white space, the empty string (0),
  a signed decimal literal with optional fraction and exponent, \<open>Infinity\<close>, and the
  unsigned literals in radix 16, 8 and 2.  Every other string is \<open>NaN\<close>.
\<close>

definition isDigit :: "char \<Rightarrow> bool" where
  "isDigit c \<longleftrightarrow> c \<in> set ''0123456789''"

definition isWhiteSpace :: "char \<Rightarrow> bool" where
  "isWhiteSpace c \<longleftrightarrow> (of_char c :: nat) \<in> set [9, 10, 11, 12, 13, 32]"

definition trimWS :: "string \<Rightarrow> string" where
  "trimWS s = rev (dropWhile isWhiteSpace (rev (dropWhile isWhiteSpace s)))"

definition radixDigit :: "nat \<Rightarrow> char \<Rightarrow> nat option" where
  "radixDigit radix c =
     (let n = (of_char c :: nat);
          v = (if 48 \<le> n \<and> n \<le> 57 then Some (n - 48)
               else if 97 \<le> n \<and> n \<le> 102 then Some (n - 87)
               else if 65 \<le> n \<and> n \<le> 70 then Some (n - 55)
               else None)
      in case v of None \<Rightarrow> None | Some d \<Rightarrow> if d < radix then Some d else None)"

definition digitsVal :: "nat \<Rightarrow> string \<Rightarrow> nat" where
  "digitsVal radix s = foldl (\<lambda>a c. radix * a + the (radixDigit radix c)) 0 s"

definition parseRadix :: "nat \<Rightarrow> string \<Rightarrow> jsnum" where
  "parseRadix radix s =
     (if s \<noteq> [] \<and> list_all (\<lambda>c. radixDigit radix c \<noteq> None) s
      then Fin (of_nat (digitsVal radix s)) else NaN)"

definition parseExponent :: "string \<Rightarrow> int option" where
  "parseExponent s =
     (case s of
        [] \<Rightarrow> Some 0
      | c # r \<Rightarrow>
          if c = CHR ''e'' \<or> c = CHR ''E'' then
            (let sgn = (if take 1 r = ''-'' then - 1 else 1);
                 ds = (if take 1 r = ''-'' \<or> take 1 r = ''+'' then drop 1 r else r)
             in if ds \<noteq> [] \<and> list_all isDigit ds
                then Some (sgn * int (digitsVal 10 ds)) else None)
          else None)"

definition pow10 :: "int \<Rightarrow> rat" where
  "pow10 e = (if 0 \<le> e then 10 ^ nat e else 1 / 10 ^ nat (- e))"

definition parseUnsignedDecimal :: "string \<Rightarrow> jsnum" where
  "parseUnsignedDecimal s =
     (if s = ''Infinity'' then PosInf
      else
        let ip = takeWhile isDigit s;
            r1 = dropWhile isDigit s;
            hasDot = (take 1 r1 = ''.'');
            fp = (if hasDot then takeWhile isDigit (drop 1 r1) else []);
            r2 = (if hasDot then dropWhile isDigit (drop 1 r1) else r1)
        in if ip = [] \<and> fp = [] then NaN
           else case parseExponent r2 of
                  None \<Rightarrow> NaN
                | Some e \<Rightarrow>
                    Fin (of_nat (digitsVal 10 (ip @ fp)) / 10 ^ length fp * pow10 e))"

definition Number_str :: "string \<Rightarrow> jsnum" where
  "Number_str s =
     (let t = trimWS s
      in if t = [] then Fin 0
         else if take 2 t = ''0x'' \<or> take 2 t = ''0X'' then parseRadix 16 (drop 2 t)
         else if take 2 t = ''0o'' \<or> take 2 t = ''0O'' then parseRadix 8 (drop 2 t)
         else if take 2 t = ''0b'' \<or> take 2 t = ''0B'' then parseRadix 2 (drop 2 t)
         else if take 1 t = ''+'' then parseUnsignedDecimal (drop 1 t)
         else if take 1 t = ''-'' then js_neg (parseUnsignedDecimal (drop 1 t))
         else parseUnsignedDecimal t)"

text \<open>
  \<open>Number(v)\<close>.  An array is converted through its string form: the empty array is
  0, a one-element array converts like its element (\<open>null\<close> and \<open>undefined\<close>
  print as the empty string, booleans as words), a longer array prints with commas and
  is \<open>NaN\<close>.  A plain object prints as \<open>[object Object]\<close>.
\<close>

fun Number_js :: "jsval \<Rightarrow> jsnum" where
  "Number_js JUndefined = NaN"
| "Number_js JNull = Fin 0"
| "Number_js (JBool b) = Fin (if b then 1 else 0)"
| "Number_js (JNum n) = n"
| "Number_js (JStr s) = Number_str s"
| "Number_js (JArr []) = Fin 0"
| "Number_js (JArr [JUndefined]) = Fin 0"
| "Number_js (JArr [JNull]) = Fin 0"
| "Number_js (JArr [JBool b]) = NaN"
| "Number_js (JArr [JNum n]) = n"
| "Number_js (JArr [JStr s]) = Number_str s"
| "Number_js (JArr [JArr ys]) = Number_js (JArr ys)"
| "Number_js (JArr [JObj ps]) = NaN"
| "Number_js (JArr [JInherited k]) = NaN"
| "Number_js (JArr (x # y # zs)) = NaN"
| "Number_js (JObj ps) = NaN"
| "Number_js (JInherited k) = NaN"

text \<open>\<open>a === b\<close> for values that are never the same object: two objects or arrays
  are equal only by identity, and a rule's conditions and a context share none.\<close>

fun strictEq :: "jsval \<Rightarrow> jsval \<Rightarrow> bool" where
  "strictEq JUndefined JUndefined = True"
| "strictEq JNull JNull = True"
| "strictEq (JBool a) (JBool b) = (a = b)"
| "strictEq (JNum a) (JNum b) = (a \<noteq> NaN \<and> a = b)"
| "strictEq (JStr a) (JStr b) = (a = b)"
| "strictEq _ _ = False"

text \<open>\<open>Array.prototype.includes\<close> compares with SameValueZero: as \<open>===\<close>, but
  \<open>NaN\<close> equals itself.\<close>

definition sameValueZero :: "jsval \<Rightarrow> jsval \<Rightarrow> bool" where
  "sameValueZero a b \<longleftrightarrow> strictEq a b \<or> (a = JNum NaN \<and> b = JNum NaN)"

definition array_includes :: "jsval list \<Rightarrow> jsval \<Rightarrow> bool" where
  "array_includes xs v = list_ex (\<lambda>x. sameValueZero x v) xs"

section \<open>Database rows and queries\<close>

text \<open>
  The tables of the schema that the orchestration code reads and writes, each a list
  of rows in storage order.  Identifiers (uuid columns) are strings, timestamps are
  milliseconds since the epoch, nullable columns are options.
\<close>

record dealer =
  dealer_id :: string
  dealer_status :: string
  dealer_timezone :: string

record callingProfile =
  cp_dealerId :: string
  callingHoursStart :: string
  callingHoursEnd :: string
  callingDaysOfWeek :: "int list"
  maxConcurrentCalls :: int
  maxCallsPerHour :: int
  maxAttemptsPerLead :: int
  retryDelayMinutes :: "int list"
  honorDnc :: bool
  requireConsent :: bool

record dealerUser =
  user_id :: string
  user_dealerId :: string
  user_email :: string
  user_phone :: "string option"
  user_firstName :: string
  user_lastName :: string
  user_role :: string
  user_department :: "string option"
  user_acceptsTransfers :: bool
  user_transferPriority :: "int option"
  user_status :: string

record routingRule =
  rule_id :: string
  rule_dealerId :: string
  rule_storeId :: "string option"
  rule_name :: string
  rule_priority :: int
  rule_conditions :: "(string \<times> jsval) list"
  rule_routeToType :: string
  rule_routeToId :: "string option"
  rule_fallbackRuleId :: "string option"
  rule_active :: bool

text \<open>The status column of a call session holds the value handed to the driver.\<close>

record callSession =
  cs_id :: string
  cs_dealerId :: string
  cs_leadId :: string
  cs_signalwireCallSid :: "string option"
  cs_fromNumber :: string
  cs_toNumber :: string
  cs_swaigSessionId :: "string option"
  cs_swaigAgentId :: "string option"
  cs_status :: jsval
  cs_outcome :: "string option"
  cs_initiatedAt :: int
  cs_answeredAt :: "int option"
  cs_endedAt :: "int option"
  cs_durationSeconds :: "jsnum option"
  cs_transferredToUserId :: "string option"
  cs_transferCompleted :: "bool option"
  cs_recordingUrl :: "string option"
  cs_recordingDuration :: "int option"
  cs_createdAt :: int
  cs_updatedAt :: int
  cs_metadata :: "(string \<times> jsval) list"

record callAttempt =
  ca_id :: string
  ca_dealerId :: string
  ca_leadId :: string
  ca_callSessionId :: "string option"
  ca_attemptNumber :: int
  ca_status :: string
  ca_scheduledFor :: "int option"
  ca_attemptedAt :: "int option"
  ca_failureReason :: "string option"

record lead =
  lead_id :: string
  lead_dealerId :: string
  lead_phone :: "string option"

record optOut =
  oo_dealerId :: string
  oo_phone :: "string option"
  oo_email :: "string option"
  oo_optOutType :: string

record database =
  dealers :: "dealer list"
  dealerCallingProfiles :: "callingProfile list"
  dealerUsers :: "dealerUser list"
  routingRules :: "routingRule list"
  leads :: "lead list"
  callSessions :: "callSession list"
  callAttempts :: "callAttempt list"
  optOuts :: "optOut list"

datatype error =
    DealerNotFoundError string
  | RateLimitError string string
  | OptOutError string string
  | MaxAttemptsError string int
  | NoRoutingRuleError string
  | NoAvailableRepError string
  | TypeError string
  | PostgresError string
  | StorageError string

text \<open>
  What a query for one row yields in JavaScript.  The relational query
  \<open>findFirst\<close> gives the first row of the result, or \<open>undefined\<close> when the
  result is empty; it never gives \<open>null\<close>.
\<close>

datatype 'a js_row = Undefined | Null | Row 'a

definition findFirst :: "('a \<Rightarrow> bool) \<Rightarrow> 'a list \<Rightarrow> 'a js_row" where
  "findFirst p rows = (case filter p rows of [] \<Rightarrow> Undefined | r # _ \<Rightarrow> Row r)"

text \<open>\<open>x || null\<close> on a query result.\<close>

fun orNull :: "'a js_row \<Rightarrow> 'a js_row" where
  "orNull (Row r) = Row r"
| "orNull _ = Null"

text \<open>
  \<open>findMany\<close> with \<open>orderBy: [desc(column)]\<close> on an integer column.  SQL fixes the
  order of the result by the key only and leaves the order of rows with equal keys to
  the database.  That order is an argument \<open>returned\<close> of the model: the arrangement
  in which the database comes upon the selected rows; the result is that arrangement
  sorted by the key, rows of equal key staying as arranged.  Every result the database
  may give, a permutation of the selected rows in descending key order, arises from
  some arrangement.
\<close>

definition orderByDesc :: "('a list \<Rightarrow> 'a list) \<Rightarrow> ('a \<Rightarrow> int) \<Rightarrow> 'a list \<Rightarrow> 'a list" where
  "orderByDesc returned key rows = sort_key (\<lambda>r. - key r) (returned rows)"

definition permutes :: "('a list \<Rightarrow> 'a list) \<Rightarrow> bool" where
  "permutes returned \<longleftrightarrow> (\<forall>rows. mset (returned rows) = mset rows)"

text \<open>The fields an update may carry; \<open>None\<close> is a field left out (or
  \<open>undefined\<close>), which the query builder does not write.\<close>

record updateCallSessionInput =
  upd_signalwireCallSid :: "string option"
  upd_status :: "jsval option"
  upd_outcome :: "string option"
  upd_answeredAt :: "int option"
  upd_endedAt :: "int option"
  upd_durationSeconds :: "jsnum option"
  upd_transferredToUserId :: "string option"
  upd_transferCompleted :: "bool option"
  upd_recordingUrl :: "string option"
  upd_recordingDuration :: "int option"
  upd_metadata :: "(string \<times> jsval) list option"

text \<open>
  What this repository leaves to the query builder, the driver and the database:
  \<^item> the arrangement in which rows of equal sort key are returned, for each query read
    with \<open>orderBy\<close> (the rules of a dealer, the rules of a store, the users of a
    department, the attempts of a lead);
  \<^item> what the driver makes of a query parameter that is not a string: it refuses it or
    sends it as some text;
  \<^item> whether the values an update carries can be sent and stored in their columns
    (types, ranges, \<open>NOT NULL\<close>).
\<close>

datatype binding = Refused string | Sent string

record driver =
  returnedRules :: "routingRule list \<Rightarrow> routingRule list"
  returnedStoreRules :: "routingRule list \<Rightarrow> routingRule list"
  returnedUsers :: "dealerUser list \<Rightarrow> dealerUser list"
  returnedAttempts :: "callAttempt list \<Rightarrow> callAttempt list"
  sentAs :: "jsval \<Rightarrow> binding"
  writable :: "updateCallSessionInput \<Rightarrow> bool"

text \<open>A condition \<open>eq(column, value)\<close> on a nullable column holds for no \<open>NULL\<close>.\<close>

definition eqCol :: "'a option \<Rightarrow> 'a \<Rightarrow> bool" where
  "eqCol col v \<longleftrightarrow> col = Some v"

section \<open>Phone numbers (shared utilities)\<close>

definition toE164 :: "string \<Rightarrow> string" where
  "toE164 phone =
     (let digits = filter isDigit phone
      in if length digits = 10 then ''+1'' @ digits
         else if length digits = 11 \<and> take 1 digits = ''1'' then ''+'' @ digits
         else if take 1 digits = ''+'' then digits else ''+'' @ digits)"

section \<open>LeadService: opt-outs\<close>

datatype channel = Call | Sms | Email

fun channelName :: "channel \<Rightarrow> string" where
  "channelName Call = ''call''"
| "channelName Sms = ''sms''"
| "channelName Email = ''email''"

text \<open>The row looked up by \<open>isOptedOut\<close>.\<close>

definition optOutQuery :: "database \<Rightarrow> string \<Rightarrow> string \<Rightarrow> channel \<Rightarrow> optOut js_row" where
  "optOutQuery db dealerId phone ch =
     (let normalizedPhone = toE164 phone
      in findFirst
           (\<lambda>r. oo_dealerId r = dealerId \<and> eqCol (oo_phone r) normalizedPhone
                \<and> (oo_optOutType r = channelName ch \<or> oo_optOutType r = ''all''))
           (optOuts db))"

text \<open>\<open>return optOut !== null\<close>\<close>

definition isOptedOut :: "database \<Rightarrow> string \<Rightarrow> string \<Rightarrow> channel \<Rightarrow> bool" where
  "isOptedOut db dealerId phone ch \<longleftrightarrow> optOutQuery db dealerId phone ch \<noteq> Null"

definition checkOptOut :: "database \<Rightarrow> string \<Rightarrow> string \<Rightarrow> channel \<Rightarrow> error + unit" where
  "checkOptOut db dealerId phone ch =
     (if isOptedOut db dealerId phone ch then Inl (OptOutError dealerId phone) else Inr ())"

section \<open>DealerService\<close>

definition getDealer :: "database \<Rightarrow> string \<Rightarrow> error + dealer" where
  "getDealer db dealerId =
     (case findFirst (\<lambda>d. dealer_id d = dealerId) (dealers db) of
        Row d \<Rightarrow> Inr d
      | _ \<Rightarrow> Inl (DealerNotFoundError dealerId))"

definition defaultProfile :: "string \<Rightarrow> callingProfile" where
  "defaultProfile dealerId =
     \<lparr>cp_dealerId = dealerId,
      callingHoursStart = ''08:00:00'',
      callingHoursEnd = ''20:00:00'',
      callingDaysOfWeek = [1, 2, 3, 4, 5, 6],
      maxConcurrentCalls = 3,
      maxCallsPerHour = 50,
      maxAttemptsPerLead = 3,
      retryDelayMinutes = [30, 120, 1440],
      honorDnc = True,
      requireConsent = True\<rparr>"

definition getCallingProfile :: "database \<Rightarrow> string \<Rightarrow> callingProfile" where
  "getCallingProfile db dealerId =
     (case findFirst (\<lambda>p. cp_dealerId p = dealerId) (dealerCallingProfiles db) of
        Row p \<Rightarrow> p
      | _ \<Rightarrow> defaultProfile dealerId)"

subsection \<open>Calling window\<close>

text \<open>
  The wall clock of an instant in a time zone, as \<open>getDay\<close>, \<open>getHours\<close> and
  \<open>getMinutes\<close> read it from the zoned date.  The conversion itself belongs to the
  date library and is a parameter \<open>toZonedTime\<close> of the model; \<open>None\<close> is the
  invalid date, whose readings are all \<open>NaN\<close>.
\<close>

record zonedDate =
  getDay :: int
  getHours :: int
  getMinutes :: int

fun splitOn :: "char \<Rightarrow> string \<Rightarrow> string list" where
  "splitOn sep [] = [[]]"
| "splitOn sep (c # cs) =
     (if c = sep then [] # splitOn sep cs
      else case splitOn sep cs of
             p # ps \<Rightarrow> (c # p) # ps
           | [] \<Rightarrow> [[c]])"

text \<open>An element of a destructured array of numbers; a missing element is
  \<open>undefined\<close>, which is \<open>NaN\<close> in arithmetic.\<close>

definition element :: "jsnum list \<Rightarrow> nat \<Rightarrow> jsnum" where
  "element xs i = (if i < length xs then xs ! i else NaN)"

text \<open>\<open>const [h, m] = s.split(':').map(Number); h * 60 + m\<close>\<close>

definition timeMinutes :: "string \<Rightarrow> jsnum" where
  "timeMinutes s =
     (let parts = map Number_str (splitOn CHR '':'' s)
      in js_add (js_mul (element parts 0) (Fin 60)) (element parts 1))"

definition isWithinCallingWindow ::
  "(int \<Rightarrow> string \<Rightarrow> zonedDate option) \<Rightarrow> database \<Rightarrow> string \<Rightarrow> int \<Rightarrow> error + bool" where
  "isWithinCallingWindow toZonedTime db dealerId date =
     (case getDealer db dealerId of
        Inl e \<Rightarrow> Inl e
      | Inr d \<Rightarrow>
          let profile = getCallingProfile db dealerId
          in case toZonedTime date (dealer_timezone d) of
               None \<Rightarrow> Inr False
             | Some zonedDate \<Rightarrow>
                 if getDay zonedDate \<notin> set (callingDaysOfWeek profile) then Inr False
                 else
                   let currentTimeMinutes =
                         Fin (of_int (getHours zonedDate * 60 + getMinutes zonedDate));
                       startTimeMinutes = timeMinutes (callingHoursStart profile);
                       endTimeMinutes = timeMinutes (callingHoursEnd profile)
                   in Inr (js_ge currentTimeMinutes startTimeMinutes
                           \<and> js_le currentTimeMinutes endTimeMinutes))"

subsection \<open>Rate limits\<close>

record rateLimitState =
  concurrentCalls :: int
  rl_maxConcurrentCalls :: int
  callsThisHour :: int
  rl_maxCallsPerHour :: int
  canMakeCall :: bool

text \<open>The source returns fixed usage figures (its comment: "TODO: Query active calls
  and recent calls from database.  For now, return defaults").\<close>

definition getRateLimitState :: "database \<Rightarrow> string \<Rightarrow> rateLimitState" where
  "getRateLimitState db dealerId =
     (let profile = getCallingProfile db dealerId
      in \<lparr>concurrentCalls = 0,
          rl_maxConcurrentCalls = maxConcurrentCalls profile,
          callsThisHour = 0,
          rl_maxCallsPerHour = maxCallsPerHour profile,
          canMakeCall = True\<rparr>)"

definition checkRateLimits :: "database \<Rightarrow> string \<Rightarrow> error + unit" where
  "checkRateLimits db dealerId =
     (let state = getRateLimitState db dealerId
      in if concurrentCalls state \<ge> rl_maxConcurrentCalls state
         then Inl (RateLimitError dealerId ''concurrent calls'')
         else if callsThisHour state \<ge> rl_maxCallsPerHour state
         then Inl (RateLimitError dealerId ''hourly calls'')
         else Inr ())"

text \<open>
  The job step \<open>check-rate-limits\<close> of \<open>trigger-call\<close> calls
  \<open>dealerService.getCurrentConcurrentCalls(dealer_id)\<close> first.  The class
  \<open>DealerService\<close> has no member of that name (nor \<open>getCallsInLastHour\<close>), so the
  call is a call of \<open>undefined\<close> and the step throws before any comparison.
\<close>

definition step_check_rate_limits :: "database \<Rightarrow> string \<Rightarrow> error + unit" where
  "step_check_rate_limits db dealerId =
     Inl (TypeError ''dealerService.getCurrentConcurrentCalls is not a function'')"

subsection \<open>Retry delay\<close>

text \<open>\<open>retryDelayMinutes[delayIndex] || 1440\<close>: an index outside the array reads
  \<open>undefined\<close>.\<close>

definition getRetryDelay :: "database \<Rightarrow> string \<Rightarrow> int \<Rightarrow> int" where
  "getRetryDelay db dealerId attemptNumber =
     (let profile = getCallingProfile db dealerId;
          delayIndex = min (attemptNumber - 1) (int (length (retryDelayMinutes profile)) - 1)
      in if 0 \<le> delayIndex \<and> delayIndex < int (length (retryDelayMinutes profile))
            \<and> retryDelayMinutes profile ! nat delayIndex \<noteq> 0
         then retryDelayMinutes profile ! nat delayIndex
         else 1440)"

section \<open>CallService\<close>


definition noUpdate :: updateCallSessionInput where
  "noUpdate =
     \<lparr>upd_signalwireCallSid = None, upd_status = None, upd_outcome = None,
      upd_answeredAt = None, upd_endedAt = None, upd_durationSeconds = None,
      upd_transferredToUserId = None, upd_transferCompleted = None,
      upd_recordingUrl = None, upd_recordingDuration = None, upd_metadata = None\<rparr>"

definition orElse :: "'a option \<Rightarrow> 'a option \<Rightarrow> 'a option" where
  "orElse new old = (case new of None \<Rightarrow> old | Some v \<Rightarrow> Some v)"

text \<open>\<open>.set({...input, updatedAt: new Date()})\<close> on one row.\<close>

definition setFields :: "updateCallSessionInput \<Rightarrow> int \<Rightarrow> callSession \<Rightarrow> callSession" where
  "setFields input now s =
     s\<lparr>cs_signalwireCallSid := orElse (upd_signalwireCallSid input) (cs_signalwireCallSid s),
       cs_status := (case upd_status input of None \<Rightarrow> cs_status s | Some v \<Rightarrow> v),
       cs_outcome := orElse (upd_outcome input) (cs_outcome s),
       cs_answeredAt := orElse (upd_answeredAt input) (cs_answeredAt s),
       cs_endedAt := orElse (upd_endedAt input) (cs_endedAt s),
       cs_durationSeconds := orElse (upd_durationSeconds input) (cs_durationSeconds s),
       cs_transferredToUserId :=
         orElse (upd_transferredToUserId input) (cs_transferredToUserId s),
       cs_transferCompleted := orElse (upd_transferCompleted input) (cs_transferCompleted s),
       cs_recordingUrl := orElse (upd_recordingUrl input) (cs_recordingUrl s),
       cs_recordingDuration := orElse (upd_recordingDuration input) (cs_recordingDuration s),
       cs_metadata := (case upd_metadata input of None \<Rightarrow> cs_metadata s | Some m \<Rightarrow> m),
       cs_updatedAt := now\<rparr>"

text \<open>
  The constraints of the schema that bear on a row of \<open>call_sessions\<close> being
  updated: \<open>signalwire_call_sid\<close> is unique, and \<open>transferred_to_user_id\<close>
  refers to a row of \<open>dealer_users\<close>.  They are checked when a row is written.
\<close>

definition matched :: "database \<Rightarrow> string \<Rightarrow> bool" where
  "matched db callSessionId = list_ex (\<lambda>s. cs_id s = callSessionId) (callSessions db)"

definition sidTaken :: "database \<Rightarrow> string \<Rightarrow> updateCallSessionInput \<Rightarrow> bool" where
  "sidTaken db callSessionId input =
     (case upd_signalwireCallSid input of
        None \<Rightarrow> False
      | Some sid \<Rightarrow>
          list_ex (\<lambda>s. cs_id s \<noteq> callSessionId \<and> cs_signalwireCallSid s = Some sid)
            (callSessions db))"

definition userMissing :: "database \<Rightarrow> updateCallSessionInput \<Rightarrow> bool" where
  "userMissing db input =
     (case upd_transferredToUserId input of
        None \<Rightarrow> False
      | Some userId \<Rightarrow> \<not> list_ex (\<lambda>u. user_id u = userId) (dealerUsers db))"

text \<open>\<open>update(callSessions).set(...).where(eq(callSessions.id, callSessionId))\<close>:
  the new database, or the error thrown.  The clock reading \<open>now\<close> is
  \<open>new Date()\<close>.\<close>

definition updateCallSession ::
  "driver \<Rightarrow> database \<Rightarrow> int \<Rightarrow> string \<Rightarrow> updateCallSessionInput \<Rightarrow> error + database" where
  "updateCallSession pg db now callSessionId input =
     (if \<not> writable pg input then Inl (StorageError ''value refused'')
      else if matched db callSessionId \<and> sidTaken db callSessionId input
      then Inl (PostgresError ''call_sessions_signalwire_call_sid_unique'')
      else if matched db callSessionId \<and> userMissing db input
      then Inl (PostgresError ''call_sessions_transferred_to_user_id_dealer_users_id_fk'')
      else Inr (db\<lparr>callSessions :=
                   map (\<lambda>s. if cs_id s = callSessionId then setFields input now s else s)
                       (callSessions db)\<rparr>))"


definition getCallSessionBySignalwireSid :: "database \<Rightarrow> string \<Rightarrow> callSession js_row" where
  "getCallSessionBySignalwireSid db signalwireCallSid =
     orNull (findFirst (\<lambda>s. eqCol (cs_signalwireCallSid s) signalwireCallSid)
               (callSessions db))"

definition markAsTransferred ::
  "driver \<Rightarrow> database \<Rightarrow> int \<Rightarrow> string \<Rightarrow> string \<Rightarrow> bool \<Rightarrow> error + database" where
  "markAsTransferred pg db now callSessionId userId completed =
     updateCallSession pg db now callSessionId
       (noUpdate\<lparr>upd_transferredToUserId := Some userId,
                 upd_transferCompleted := Some completed,
                 upd_status := Some (JStr (if completed then ''transferred'' else ''in_progress'')),
                 upd_outcome := (if completed then Some ''transferred'' else None)\<rparr>)"

subsection \<open>Call attempts\<close>

definition getLatestCallAttempt :: "driver \<Rightarrow> database \<Rightarrow> string \<Rightarrow> callAttempt js_row" where
  "getLatestCallAttempt pg db leadId =
     (case take 1 (orderByDesc (returnedAttempts pg) ca_attemptNumber
                     (filter (\<lambda>a. ca_leadId a = leadId) (callAttempts db))) of
        [] \<Rightarrow> Null
      | attempt # _ \<Rightarrow> Row attempt)"

text \<open>\<open>(latestAttempt?.attemptNumber || 0) + 1\<close>\<close>

definition nextAttemptNumber :: "callAttempt js_row \<Rightarrow> int" where
  "nextAttemptNumber latestAttempt =
     (case latestAttempt of
        Row a \<Rightarrow> (if ca_attemptNumber a = 0 then 0 else ca_attemptNumber a) + 1
      | _ \<Rightarrow> 0 + 1)"

text \<open>
  The insert into \<open>call_attempts\<close>.  The table has the unique index
  \<open>unique_lead_attempt\<close> on (lead, attempt number), and its dealer and lead columns
  refer to rows of \<open>dealers\<close> and \<open>leads\<close>; a row that repeats such a pair, or
  names a dealer or lead that has no row, is refused by the database and the statement
  throws.  The identifier \<open>newId\<close> is the one the database generates for the row.
\<close>

definition insertCallAttempt :: "database \<Rightarrow> callAttempt \<Rightarrow> database \<times> (error + callAttempt)" where
  "insertCallAttempt db row =
     (if list_ex (\<lambda>a. ca_leadId a = ca_leadId row \<and> ca_attemptNumber a = ca_attemptNumber row)
           (callAttempts db)
      then (db, Inl (PostgresError ''unique_lead_attempt''))
      else if \<not> list_ex (\<lambda>d. dealer_id d = ca_dealerId row) (dealers db)
      then (db, Inl (PostgresError ''call_attempts_dealer_id_dealers_id_fk''))
      else if \<not> list_ex (\<lambda>l. lead_id l = ca_leadId row) (leads db)
      then (db, Inl (PostgresError ''call_attempts_lead_id_leads_id_fk''))
      else (db\<lparr>callAttempts := callAttempts db @ [row]\<rparr>, Inr row))"

definition createCallAttempt ::
  "database \<Rightarrow> string \<Rightarrow> string \<Rightarrow> string \<Rightarrow> int \<Rightarrow> int option
     \<Rightarrow> database \<times> (error + callAttempt)" where
  "createCallAttempt db newId dealerId leadId attemptNumber scheduledFor =
     (let profile = getCallingProfile db dealerId
      in if attemptNumber > maxAttemptsPerLead profile
         then (db, Inl (MaxAttemptsError leadId (maxAttemptsPerLead profile)))
         else insertCallAttempt db
                \<lparr>ca_id = newId, ca_dealerId = dealerId, ca_leadId = leadId,
                 ca_callSessionId = None, ca_attemptNumber = attemptNumber,
                 ca_status = (if scheduledFor \<noteq> None then ''scheduled'' else ''pending''),
                 ca_scheduledFor = scheduledFor, ca_attemptedAt = None,
                 ca_failureReason = None\<rparr>)"

text \<open>
  The time zone of the server: \<open>localTime\<close> takes an instant to the reading of the
  local wall clock (both in milliseconds), \<open>utcTime\<close> takes a wall-clock reading
  back to the instant.  \<open>date.setMinutes(date.getMinutes() + n)\<close> works on the wall
  clock: it reads the local time, moves its minute field by \<open>n\<close> and converts back.
\<close>

record timeZone =
  localTime :: "int \<Rightarrow> int"
  utcTime :: "int \<Rightarrow> int"

definition addLocalMinutes :: "timeZone \<Rightarrow> int \<Rightarrow> int \<Rightarrow> int" where
  "addLocalMinutes zone date n = utcTime zone (localTime zone date + n * 60000)"

definition scheduleRetry ::
  "driver \<Rightarrow> timeZone \<Rightarrow> database \<Rightarrow> string \<Rightarrow> int \<Rightarrow> string \<Rightarrow> string
     \<Rightarrow> database \<times> (error + callAttempt)" where
  "scheduleRetry pg zone db newId now dealerId leadId =
     (let latestAttempt = getLatestCallAttempt pg db leadId;
          n = nextAttemptNumber latestAttempt;
          delayMinutes = getRetryDelay db dealerId n;
          scheduledFor = addLocalMinutes zone now delayMinutes
      in createCallAttempt db newId dealerId leadId n (Some scheduledFor))"

text \<open>The job step \<open>create-call-attempt\<close> of \<open>trigger-call\<close>.\<close>

definition step_create_call_attempt ::
  "driver \<Rightarrow> database \<Rightarrow> string \<Rightarrow> string \<Rightarrow> string \<Rightarrow> database \<times> (error + callAttempt)" where
  "step_create_call_attempt pg db newId dealerId leadId =
     (let latestAttempt = getLatestCallAttempt pg db leadId;
          attemptNumber = nextAttemptNumber latestAttempt
      in createCallAttempt db newId dealerId leadId attemptNumber None)"

section \<open>Provider status translation (webhooks, signalwire router)\<close>

definition statusMap :: "(string \<times> jsval) list" where
  "statusMap =
     [(''queued'', JStr ''initiated''),
      (''initiated'', JStr ''initiated''),
      (''ringing'', JStr ''ringing''),
      (''in-progress'', JStr ''answered''),
      (''completed'', JStr ''completed''),
      (''failed'', JStr ''failed''),
      (''busy'', JStr ''busy''),
      (''no-answer'', JStr ''no_answer''),
      (''canceled'', JStr ''failed'')]"

text \<open>\<open>return statusMap[signalwireStatus] || 'initiated'\<close>\<close>

definition mapSignalWireStatus :: "string \<Rightarrow> jsval" where
  "mapSignalWireStatus signalwireStatus =
     (let v = js_get statusMap signalwireStatus
      in if truthy v then v else JStr ''initiated'')"


subsection \<open>Status callback\<close>

text \<open>
  \<open>POST /status\<close>: \<open>callSid\<close> and \<open>callStatus\<close> are the form fields, \<open>duration\<close>
  is \<open>body.CallDuration ? parseInt(body.CallDuration, 10) : undefined\<close>.  The clock is
  read twice: \<open>received\<close> by the handler, \<open>now\<close> by the update.  The handler
  answers 200, or 500 when the update throws; then nothing has been written.
\<close>

definition statusUpdates :: "int \<Rightarrow> string \<Rightarrow> jsnum option \<Rightarrow> updateCallSessionInput" where
  "statusUpdates received callStatus duration =
     (let updates = noUpdate\<lparr>upd_status := Some (mapSignalWireStatus callStatus)\<rparr>
      in if callStatus = ''completed'' \<and> duration \<noteq> None
         then updates\<lparr>upd_durationSeconds := duration, upd_endedAt := Some received\<rparr>
         else if callStatus = ''in-progress''
         then updates\<lparr>upd_answeredAt := Some received\<rparr>
         else updates)"

definition statusCallback ::
  "driver \<Rightarrow> database \<Rightarrow> int \<Rightarrow> int \<Rightarrow> string \<Rightarrow> string \<Rightarrow> jsnum option
     \<Rightarrow> database \<times> nat" where
  "statusCallback pg db received now callSid callStatus duration =
     (case getCallSessionBySignalwireSid db callSid of
        Row session \<Rightarrow>
          (case updateCallSession pg db now (cs_id session)
                  (statusUpdates received callStatus duration) of
             Inr db' \<Rightarrow> (db', 200)
           | Inl e \<Rightarrow> (db, 500))
      | _ \<Rightarrow> (db, 200))"


section \<open>RoutingEngine\<close>

record routingContext =
  ctx_dealerId :: string
  ctx_storeId :: "string option"
  ctx_department :: "string option"
  ctx_vehicleOfInterest :: "string option"
  ctx_source :: "string option"
  ctx_intentScore :: "jsnum option"
  ctx_leadValue :: "jsnum option"
  ctx_metadata :: "(string \<times> jsval) list option"

record userInfo =
  info_id :: string
  info_firstName :: string
  info_lastName :: string
  info_phone :: string
  info_email :: string
  info_role :: string
  info_department :: "string option"

record routingTarget =
  target_type :: string
  target_userId :: "string option"
  target_user :: "userInfo option"

text \<open>The own properties of a context object; a field that is left out reads
  \<open>undefined\<close>.\<close>

definition optional :: "('a \<Rightarrow> jsval) \<Rightarrow> 'a option \<Rightarrow> jsval" where
  "optional f v = (case v of None \<Rightarrow> JUndefined | Some x \<Rightarrow> f x)"

definition contextProperties :: "routingContext \<Rightarrow> (string \<times> jsval) list" where
  "contextProperties context =
     [(''dealerId'', JStr (ctx_dealerId context)),
      (''storeId'', optional JStr (ctx_storeId context)),
      (''department'', optional JStr (ctx_department context)),
      (''vehicleOfInterest'', optional JStr (ctx_vehicleOfInterest context)),
      (''source'', optional JStr (ctx_source context)),
      (''intentScore'', optional JNum (ctx_intentScore context)),
      (''leadValue'', optional JNum (ctx_leadValue context)),
      (''metadata'', optional JObj (ctx_metadata context))]"

text \<open>
  One condition of a rule.  A condition value that is an object with \<open>min\<close> or
  \<open>max\<close> is a range, one with an array \<open>in\<close> a membership test, one with
  \<open>exists\<close> a presence test; every other value, arrays included, is compared with
  \<open>===\<close>.
\<close>

definition evaluateCondition :: "string \<Rightarrow> jsval \<Rightarrow> routingContext \<Rightarrow> bool" where
  "evaluateCondition key conditionValue context =
     (let contextValue = js_get (contextProperties context) key
      in case conditionValue of
           JObj props \<Rightarrow>
             if js_in ''min'' props \<or> js_in ''max'' props then
               (let numValue = Number_js contextValue;
                    minimum = (if js_in ''min'' props then Number_js (js_get props ''min'')
                               else NegInf);
                    maximum = (if js_in ''max'' props then Number_js (js_get props ''max'')
                               else PosInf)
                in js_ge numValue minimum \<and> js_le numValue maximum)
             else if js_in ''in'' props
                     \<and> (case js_get props ''in'' of JArr _ \<Rightarrow> True | _ \<Rightarrow> False) then
               (case js_get props ''in'' of
                  JArr xs \<Rightarrow> array_includes xs contextValue
                | _ \<Rightarrow> False)
             else if js_in ''exists'' props then
               (let exists = (contextValue \<noteq> JUndefined \<and> contextValue \<noteq> JNull)
                in if truthy (js_get props ''exists'') then exists else \<not> exists)
             else strictEq contextValue conditionValue
         | _ \<Rightarrow> strictEq contextValue conditionValue)"

fun evaluateEntries :: "(string \<times> jsval) list \<Rightarrow> routingContext \<Rightarrow> bool" where
  "evaluateEntries [] context = True"
| "evaluateEntries ((key, v) # entries) context =
     (if \<not> evaluateCondition key v context then False
      else evaluateEntries entries context)"

definition evaluateRuleConditions :: "(string \<times> jsval) list \<Rightarrow> routingContext \<Rightarrow> bool" where
  "evaluateRuleConditions conditions context =
     (if length conditions = 0 then True else evaluateEntries conditions context)"

subsection \<open>Loading the rules\<close>

text \<open>\<open>if (storeId)\<close>: a store id that is left out or empty is falsy.\<close>

definition given :: "string option \<Rightarrow> bool" where
  "given s \<longleftrightarrow> (case s of None \<Rightarrow> False | Some v \<Rightarrow> v \<noteq> [])"

text \<open>\<open>[...storeRules, ...dealerRules].sort((a, b) => b.priority - a.priority)\<close>;
  the sort of arrays is stable.\<close>

definition getActiveRules ::
  "driver \<Rightarrow> database \<Rightarrow> string \<Rightarrow> string option \<Rightarrow> routingRule list" where
  "getActiveRules pg db dealerId storeId =
     (let conditions = (\<lambda>r. rule_dealerId r = dealerId \<and> rule_active r)
      in if given storeId then
           (let dealerRules = orderByDesc (returnedRules pg) rule_priority
                  (filter conditions (routingRules db));
                storeRules = orderByDesc (returnedStoreRules pg) rule_priority
                  (filter (\<lambda>r. conditions r \<and> eqCol (rule_storeId r) (the storeId))
                     (routingRules db))
            in sort_key (\<lambda>r. - rule_priority r) (storeRules @ dealerRules))
         else orderByDesc (returnedRules pg) rule_priority
                (filter conditions (routingRules db)))"

subsection \<open>Resolving a target\<close>

definition userTarget :: "dealerUser \<Rightarrow> routingTarget" where
  "userTarget user =
     \<lparr>target_type = ''user'', target_userId = Some (user_id user),
      target_user = Some
        \<lparr>info_id = user_id user, info_firstName = user_firstName user,
         info_lastName = user_lastName user,
         info_phone = (case user_phone user of None \<Rightarrow> [] | Some p \<Rightarrow> p),
         info_email = user_email user, info_role = user_role user,
         info_department = user_department user\<rparr>\<rparr>"

definition findAvailableUser :: "database \<Rightarrow> string \<Rightarrow> routingTarget option" where
  "findAvailableUser db userId =
     (case findFirst (\<lambda>u. user_id u = userId \<and> user_status u = ''active''
                           \<and> user_acceptsTransfers u) (dealerUsers db) of
        Row user \<Rightarrow> Some (userTarget user)
      | _ \<Rightarrow> None)"

text \<open>Descending order on a nullable column puts the \<open>NULL\<close>s first.\<close>

definition orderByDescNullable ::
  "('a list \<Rightarrow> 'a list) \<Rightarrow> ('a \<Rightarrow> int option) \<Rightarrow> 'a list \<Rightarrow> 'a list" where
  "orderByDescNullable returned key rows =
     filter (\<lambda>r. key r = None) (returned rows)
     @ sort_key (\<lambda>r. - the (key r)) (filter (\<lambda>r. key r \<noteq> None) (returned rows))"

definition usersOfDepartment :: "driver \<Rightarrow> database \<Rightarrow> string \<Rightarrow> string \<Rightarrow> routingTarget option" where
  "usersOfDepartment pg db dealerId dep =
     (case orderByDescNullable (returnedUsers pg) user_transferPriority
             (filter (\<lambda>u. user_dealerId u = dealerId \<and> eqCol (user_department u) dep
                          \<and> user_status u = ''active'' \<and> user_acceptsTransfers u)
                (dealerUsers db)) of
        [] \<Rightarrow> None
      | user # _ \<Rightarrow> Some (userTarget user))"

text \<open>
  The department is read from the rule's conditions and cast to a string; the value
  goes into the query unchecked.  A string selects the users of that department.
  \<open>null\<close> compares equal to no row.  The driver refuses \<open>undefined\<close> (error
  \<open>UNDEFINED_VALUE\<close>), so the call throws.  Any other value is left to the driver
  (\<open>sentAs\<close>): it refuses it, or sends it as a text, with which the query runs.
\<close>

definition findAvailableUserByDepartment ::
  "driver \<Rightarrow> database \<Rightarrow> string \<Rightarrow> jsval \<Rightarrow> error + routingTarget option" where
  "findAvailableUserByDepartment pg db dealerId department =
     (case department of
        JStr dep \<Rightarrow> Inr (usersOfDepartment pg db dealerId dep)
      | JNull \<Rightarrow> Inr None
      | JUndefined \<Rightarrow> Inl (PostgresError ''UNDEFINED_VALUE'')
      | _ \<Rightarrow>
          (case sentAs pg department of
             Refused message \<Rightarrow> Inl (StorageError message)
           | Sent dep \<Rightarrow> Inr (usersOfDepartment pg db dealerId dep)))"

definition resolveRuleTarget ::
  "driver \<Rightarrow> database \<Rightarrow> routingRule \<Rightarrow> error + routingTarget option" where
  "resolveRuleTarget pg db rule =
     (if rule_routeToType rule = ''user'' then
        (if \<not> given (rule_routeToId rule) then Inr None
         else Inr (findAvailableUser db (the (rule_routeToId rule))))
      else if rule_routeToType rule = ''department'' then
        findAvailableUserByDepartment pg db (rule_dealerId rule)
          (js_get (rule_conditions rule) ''department'')
      else if rule_routeToType rule = ''team'' then Inr None
      else if rule_routeToType rule = ''voicemail'' then
        Inr (Some \<lparr>target_type = ''voicemail'', target_userId = None, target_user = None\<rparr>)
      else Inr None)"

subsection \<open>Routing\<close>

text \<open>The loop over the rules in \<open>route\<close>; a thrown error ends it.\<close>

fun routeRules ::
  "driver \<Rightarrow> database \<Rightarrow> routingContext \<Rightarrow> routingRule list \<Rightarrow> error + routingTarget" where
  "routeRules pg db context [] = Inl (NoAvailableRepError (ctx_dealerId context))"
| "routeRules pg db context (rule # rules) =
     (if evaluateRuleConditions (rule_conditions rule) context then
        (case resolveRuleTarget pg db rule of
           Inl e \<Rightarrow> Inl e
         | Inr (Some target) \<Rightarrow> Inr target
         | Inr None \<Rightarrow>
             if given (rule_fallbackRuleId rule) then
               (case findFirst (\<lambda>r. rule_id r = the (rule_fallbackRuleId rule))
                       (routingRules db) of
                  Row fallbackRule \<Rightarrow>
                    (case resolveRuleTarget pg db fallbackRule of
                       Inl e \<Rightarrow> Inl e
                     | Inr (Some fallbackTarget) \<Rightarrow> Inr fallbackTarget
                     | Inr None \<Rightarrow> routeRules pg db context rules)
                | _ \<Rightarrow> routeRules pg db context rules)
             else routeRules pg db context rules)
      else routeRules pg db context rules)"

definition route :: "driver \<Rightarrow> database \<Rightarrow> routingContext \<Rightarrow> error + routingTarget" where
  "route pg db context =
     (let rules = getActiveRules pg db (ctx_dealerId context) (ctx_storeId context)
      in if length rules = 0 then Inl (NoRoutingRuleError (ctx_dealerId context))
         else routeRules pg db context rules)"

text \<open>
  The routing decision in the words of the specification.  A rule matches when all its
  conditions hold.  A rule has an available target when its own target resolves or,
  failing that, the target of its fallback rule resolves; that target is the rule's.
  The decision is the target of the first rule, in the order given, that matches and
  has an available target.
\<close>

definition spec_matches :: "routingRule \<Rightarrow> routingContext \<Rightarrow> bool" where
  "spec_matches rule context \<longleftrightarrow>
     list_all (\<lambda>(key, v). evaluateCondition key v context) (rule_conditions rule)"


definition spec_fallbackRule :: "database \<Rightarrow> routingRule \<Rightarrow> routingRule option" where
  "spec_fallbackRule db rule =
     (if given (rule_fallbackRuleId rule)
      then find (\<lambda>r. rule_id r = the (rule_fallbackRuleId rule)) (routingRules db)
      else None)"




text \<open>
  What the loop of \<open>route\<close> obtains from one matching rule: the rule's own target,
  or failing that its fallback rule's, \<open>Inr None\<close> when neither is available, or the
  error thrown while they were looked up.
\<close>

definition ruleOutcome :: "driver \<Rightarrow> database \<Rightarrow> routingRule \<Rightarrow> error + routingTarget option" where
  "ruleOutcome pg db rule =
     (case resolveRuleTarget pg db rule of
        Inr None \<Rightarrow>
          (case spec_fallbackRule db rule of
             None \<Rightarrow> Inr None
           | Some fallbackRule \<Rightarrow> resolveRuleTarget pg db fallbackRule)
      | outcome \<Rightarrow> outcome)"

section \<open>Example data\<close>

definition emptyDb :: database where
  "emptyDb = \<lparr>dealers = [], dealerCallingProfiles = [], dealerUsers = [], routingRules = [],
              leads = [], callSessions = [], callAttempts = [], optOuts = []\<rparr>"

definition exampleSession :: "string \<Rightarrow> string \<Rightarrow> string \<Rightarrow> callSession" where
  "exampleSession sessionId sid status =
     \<lparr>cs_id = sessionId, cs_dealerId = ''d1'', cs_leadId = ''l1'',
      cs_signalwireCallSid = Some sid, cs_fromNumber = ''+19195550000'',
      cs_toNumber = ''+19195551234'', cs_swaigSessionId = None, cs_swaigAgentId = None,
      cs_status = JStr status, cs_outcome = None, cs_initiatedAt = 1000,
      cs_answeredAt = None, cs_endedAt = None, cs_durationSeconds = None,
      cs_transferredToUserId = None, cs_transferCompleted = Some False,
      cs_recordingUrl = None, cs_recordingDuration = None, cs_createdAt = 1000,
      cs_updatedAt = 1000,
      cs_metadata = []\<rparr>"

definition busyDb :: database where
  "busyDb =
     emptyDb\<lparr>dealers := [\<lparr>dealer_id = ''d1'', dealer_status = ''active'',
                           dealer_timezone = ''America/New_York''\<rparr>],
             callSessions := [exampleSession ''s1'' ''CA1'' ''in_progress'',
                              exampleSession ''s2'' ''CA2'' ''in_progress'',
                              exampleSession ''s3'' ''CA3'' ''in_progress'']\<rparr>"

definition doneDb :: database where
  "doneDb = emptyDb\<lparr>callSessions := [exampleSession ''s1'' ''CA1'' ''completed'']\<rparr>"

text \<open>A dealer and one of its leads.\<close>

definition baseDb :: database where
  "baseDb =
     emptyDb\<lparr>dealers := [\<lparr>dealer_id = ''d1'', dealer_status = ''active'',
                           dealer_timezone = ''America/New_York''\<rparr>],
             leads := [\<lparr>lead_id = ''l1'', lead_dealerId = ''d1'',
                         lead_phone = Some ''+19195551234''\<rparr>]\<rparr>"

definition zeroDelayDb :: database where
  "zeroDelayDb =
     baseDb\<lparr>dealerCallingProfiles := [(defaultProfile ''d1'')\<lparr>retryDelayMinutes := [0]\<rparr>]\<rparr>"

definition exampleAttempt :: "string \<Rightarrow> int \<Rightarrow> callAttempt" where
  "exampleAttempt attemptId n =
     \<lparr>ca_id = attemptId, ca_dealerId = ''d1'', ca_leadId = ''l1'', ca_callSessionId = None,
      ca_attemptNumber = n, ca_status = ''failed'', ca_scheduledFor = None,
      ca_attemptedAt = None, ca_failureReason = None\<rparr>"

definition onceDb :: database where
  "onceDb = baseDb\<lparr>callAttempts := [exampleAttempt ''a1'' 1\<lparr>ca_status := ''pending''\<rparr>]\<rparr>"

text \<open>The (lead, attempt number) pairs of the stored attempts.\<close>

definition attemptKeys :: "database \<Rightarrow> (string \<times> int) list" where
  "attemptKeys db = map (\<lambda>a. (ca_leadId a, ca_attemptNumber a)) (callAttempts db)"

text \<open>The attempt numbers stored for a lead.\<close>

definition attemptNumbers :: "database \<Rightarrow> string \<Rightarrow> int list" where
  "attemptNumbers db leadId =
     map ca_attemptNumber (filter (\<lambda>a. ca_leadId a = leadId) (callAttempts db))"

definition retriedDb :: "int list \<Rightarrow> database" where
  "retriedDb ns = baseDb\<lparr>callAttempts := map (exampleAttempt ''a'') ns\<rparr>"

text \<open>
  Two drivers for the examples.  One returns rows of equal key in storage order, the
  other in the reverse of it.  Both refuse the prototype object as a status and a
  duration that is not a 32-bit integer, and print an object as \<open>[object Object]\<close>;
  the examples consult them on nothing else.
\<close>

definition int32 :: "jsnum \<Rightarrow> bool" where
  "int32 n =
     (case n of
        Fin q \<Rightarrow> of_int \<lfloor>q\<rfloor> = q \<and> - 2147483648 \<le> q \<and> q \<le> 2147483647
      | _ \<Rightarrow> False)"

definition exampleWritable :: "updateCallSessionInput \<Rightarrow> bool" where
  "exampleWritable input \<longleftrightarrow>
     upd_status input \<noteq> Some (JInherited ''__proto__'')
     \<and> (case upd_durationSeconds input of None \<Rightarrow> True | Some n \<Rightarrow> int32 n)"

definition exampleSentAs :: "jsval \<Rightarrow> binding" where
  "exampleSentAs v =
     (case v of JObj _ \<Rightarrow> Sent ''[object Object]'' | _ \<Rightarrow> Refused ''not in the examples'')"

definition storageDriver :: driver where
  "storageDriver =
     \<lparr>returnedRules = (\<lambda>rows. rows), returnedStoreRules = (\<lambda>rows. rows),
      returnedUsers = (\<lambda>rows. rows), returnedAttempts = (\<lambda>rows. rows),
      sentAs = exampleSentAs, writable = exampleWritable\<rparr>"

definition reverseDriver :: driver where
  "reverseDriver =
     \<lparr>returnedRules = rev, returnedStoreRules = rev, returnedUsers = rev,
      returnedAttempts = rev, sentAs = exampleSentAs, writable = exampleWritable\<rparr>"

text \<open>The offset of the zone at an instant, and the offset it applies to a reading of
  the wall clock.\<close>

definition offsetAt :: "timeZone \<Rightarrow> int \<Rightarrow> int" where
  "offsetAt zone t = localTime zone t - t"

definition offsetOfReading :: "timeZone \<Rightarrow> int \<Rightarrow> int" where
  "offsetOfReading zone l = l - utcTime zone l"

text \<open>
  Two server time zones: one without offset, and one five hours behind until the
  instant 0 and four hours behind from then on (the change to daylight-saving time).
  A reading that the wall clock skips at the change is taken with the offset before it.
\<close>

definition utcZone :: timeZone where
  "utcZone = \<lparr>localTime = (\<lambda>t. t), utcTime = (\<lambda>l. l)\<rparr>"

definition springZone :: timeZone where
  "springZone =
     \<lparr>localTime = (\<lambda>t. if t < 0 then t - 18000000 else t - 14400000),
      utcTime = (\<lambda>l. if l < - 14400000 then l + 18000000 else l + 14400000)\<rparr>"

text \<open>
  The retry scheduler in the words of the specification: the next sequence number is
  one greater than the highest existing one for the contact, or 1 if none exists; the
  delay is the entry of the delay list at \<open>min (attemptNumber - 1, length - 1)\<close>.
\<close>

definition spec_nextAttemptNumber :: "database \<Rightarrow> string \<Rightarrow> int" where
  "spec_nextAttemptNumber db leadId =
     (if attemptNumbers db leadId = [] then 1 else Max (set (attemptNumbers db leadId)) + 1)"

definition spec_retryDelay :: "callingProfile \<Rightarrow> int \<Rightarrow> int" where
  "spec_retryDelay profile attemptNumber =
     retryDelayMinutes profile
       ! nat (min (attemptNumber - 1) (int (length (retryDelayMinutes profile)) - 1))"

text \<open>How the database prints a value of a \<open>time\<close> column: \<open>HH:MM:SS\<close>.\<close>

definition digitChar :: "nat \<Rightarrow> char" where
  "digitChar d = ''0123456789'' ! d"

definition twoDigits :: "nat \<Rightarrow> string" where
  "twoDigits n = [digitChar (n div 10), digitChar (n mod 10)]"

definition timeText :: "nat \<Rightarrow> nat \<Rightarrow> nat \<Rightarrow> string" where
  "timeText h m s = twoDigits h @ '':'' @ twoDigits m @ '':'' @ twoDigits s"

definition windowDb :: database where
  "windowDb = emptyDb\<lparr>dealers := [\<lparr>dealer_id = ''d1'', dealer_status = ''active'',
                                     dealer_timezone = ''America/New_York''\<rparr>]\<rparr>"

definition exampleUser :: "string \<Rightarrow> string \<Rightarrow> dealerUser" where
  "exampleUser userId status =
     \<lparr>user_id = userId, user_dealerId = ''d1'', user_email = userId @ ''@example.com'',
      user_phone = Some ''+19195550101'', user_firstName = ''Pat'', user_lastName = userId,
      user_role = ''sales_rep'', user_department = Some ''new'',
      user_acceptsTransfers = True, user_transferPriority = Some 0, user_status = status\<rparr>"

definition exampleRule ::
  "string \<Rightarrow> int \<Rightarrow> (string \<times> jsval) list \<Rightarrow> string \<Rightarrow> string option \<Rightarrow> routingRule" where
  "exampleRule ruleId priority conditions routeToType routeToId =
     \<lparr>rule_id = ruleId, rule_dealerId = ''d1'', rule_storeId = None, rule_name = ruleId,
      rule_priority = priority, rule_conditions = conditions,
      rule_routeToType = routeToType, rule_routeToId = routeToId,
      rule_fallbackRuleId = None, rule_active = True\<rparr>"

definition exampleContext :: "string \<Rightarrow> routingContext" where
  "exampleContext department =
     \<lparr>ctx_dealerId = ''d1'', ctx_storeId = None, ctx_department = Some department,
      ctx_vehicleOfInterest = None, ctx_source = None, ctx_intentScore = None,
      ctx_leadValue = None, ctx_metadata = None\<rparr>"


text \<open>Two rules of equal priority and scope, stored in either order.\<close>

definition tieDb :: "bool \<Rightarrow> database" where
  "tieDb swapped =
     emptyDb\<lparr>dealerUsers := [exampleUser ''repB'' ''active''],
             routingRules :=
               (if swapped
                then [exampleRule ''r2'' 5 [] ''user'' (Some ''repB''),
                      exampleRule ''r1'' 5 [] ''voicemail'' None]
                else [exampleRule ''r1'' 5 [] ''voicemail'' None,
                      exampleRule ''r2'' 5 [] ''user'' (Some ''repB'')])\<rparr>"

text \<open>A single rule, for the department new.\<close>

definition oneRuleDb :: database where
  "oneRuleDb =
     emptyDb\<lparr>dealerUsers := [exampleUser ''repB'' ''active''],
             routingRules :=
               [exampleRule ''A'' 100 [(''department'', JStr ''new'')] ''user'' (Some ''repB'')]\<rparr>"


text \<open>A single rule routed to a department, whose department condition is a
  membership test.\<close>

definition memberDb :: database where
  "memberDb =
     emptyDb\<lparr>dealerUsers := [exampleUser ''repB'' ''active''],
             routingRules :=
               [exampleRule ''M'' 100 [(''department'', JObj [(''in'', JArr [JStr ''new''])])]
                  ''department'' None]\<rparr>"

text \<open>The active rules of a dealer, in storage order.\<close>

definition dealerRows :: "database \<Rightarrow> string \<Rightarrow> routingRule list" where
  "dealerRows db dealerId =
     filter (\<lambda>r. rule_dealerId r = dealerId \<and> rule_active r) (routingRules db)"

text \<open>The users of a department of a dealer that accept transfers, in storage
  order.\<close>

definition departmentRows :: "database \<Rightarrow> string \<Rightarrow> string \<Rightarrow> dealerUser list" where
  "departmentRows db dealerId dep =
     filter (\<lambda>u. user_dealerId u = dealerId \<and> eqCol (user_department u) dep
                  \<and> user_status u = ''active'' \<and> user_acceptsTransfers u)
       (dealerUsers db)"

text \<open>Two reps of the department \<open>new\<close>, stored in ascending transfer priority;
  a rule for that department routed to the department, above a rule routed to
  voicemail.\<close>

definition rankedDb :: database where
  "rankedDb =
     emptyDb\<lparr>dealerUsers := [(exampleUser ''repB'' ''active'')\<lparr>user_transferPriority := Some 1\<rparr>,
                              (exampleUser ''repA'' ''active'')\<lparr>user_transferPriority := Some 2\<rparr>],
             routingRules :=
               [exampleRule ''dept'' 100 [(''department'', JStr ''new'')] ''department'' None,
                exampleRule ''vm'' 10 [] ''voicemail'' None]\<rparr>"

text \<open>A dealer-wide rule stored before a rule of store \<open>s1\<close>, both of priority 5.\<close>

definition storeDb :: database where
  "storeDb =
     emptyDb\<lparr>routingRules :=
               [exampleRule ''wide'' 5 [] ''voicemail'' None,
                (exampleRule ''local'' 5 [] ''voicemail'' None)\<lparr>rule_storeId := Some ''s1''\<rparr>]\<rparr>"

section \<open>Results\<close>

subsection \<open>Opt-out check\<close>

lemma findFirst_not_Null: "findFirst p rows \<noteq> Null"
  by (simp add: findFirst_def split: list.split)

lemma findFirst_Undefined_iff: "findFirst p rows = Undefined \<longleftrightarrow> (\<forall>r \<in> set rows. \<not> p r)"
proof (cases "filter p rows")
  case Nil
  then show ?thesis by (simp add: findFirst_def filter_empty_conv)
next
  case (Cons r rs)
  then have "r \<in> set (filter p rows)" by simp
  then have "r \<in> set rows \<and> p r" by simp
  with Cons show ?thesis by (auto simp: findFirst_def)
qed

lemma isOptedOut_always: "isOptedOut db dealerId phone ch"
  by (simp add: isOptedOut_def optOutQuery_def Let_def findFirst_not_Null)

text \<open>
  C1.  With no opt-out record at all, the check is meant to allow the contact.  The
  query yields \<open>undefined\<close> for the empty result, the test \<open>optOut !== null\<close> is
  true of it, and \<open>checkOptOut\<close> refuses the number.
\<close>

theorem isOptedOut_without_record:
  "optOuts emptyDb = []
   \<and> optOutQuery emptyDb ''d1'' ''(919) 555-1234'' Call = Undefined
   \<and> isOptedOut emptyDb ''d1'' ''(919) 555-1234'' Call
   \<and> checkOptOut emptyDb ''d1'' ''(919) 555-1234'' Call
       = Inl (OptOutError ''d1'' ''(919) 555-1234'')"
  by (simp add: checkOptOut_def isOptedOut_def optOutQuery_def findFirst_def emptyDb_def)

subsection \<open>Calling window\<close>

lemma digit_cases:
  assumes "d < 10"
  obtains "d = 0" | "d = 1" | "d = 2" | "d = 3" | "d = 4" | "d = 5" | "d = 6" | "d = 7"
    | "d = 8" | "d = (9::nat)"
  using assms by atomize_elim arith

lemma digitChar_props:
  assumes "d < 10"
  shows "isDigit (digitChar d)" "\<not> isWhiteSpace (digitChar d)"
    "radixDigit 10 (digitChar d) = Some d"
    "digitChar d \<notin> set ''xXoObB+-.eEI:''"
  using assms
  by (cases d rule: digit_cases; simp add: digitChar_def isDigit_def isWhiteSpace_def radixDigit_def)+


lemma Number_str_twoDigits:
  assumes "n < 100"
  shows "Number_str (twoDigits n) = Fin (of_nat n)"
proof -
  let ?a = "digitChar (n div 10)" and ?b = "digitChar (n mod 10)"
  have a: "n div 10 < 10" and b: "n mod 10 < 10" using assms by auto
  note pa = digitChar_props [OF a] and pb = digitChar_props [OF b]
  have trim: "trimWS [?a, ?b] = [?a, ?b]"
    using pa(2) pb(2) by (simp add: trimWS_def)
  have dec: "parseUnsignedDecimal [?a, ?b] = Fin (of_nat (10 * (n div 10) + n mod 10))"
    using pa pb
    by (simp add: parseUnsignedDecimal_def parseExponent_def pow10_def digitsVal_def)
  have "Number_str [?a, ?b] = parseUnsignedDecimal [?a, ?b]"
    using pa(4) pb(4) by (simp add: Number_str_def trim)
  with dec show ?thesis by (simp add: twoDigits_def)
qed

lemma splitOn_no_sep: "sep \<notin> set s \<Longrightarrow> splitOn sep s = [s]"
  by (induction s) auto

lemma splitOn_append:
  "sep \<notin> set s \<Longrightarrow> splitOn sep (s @ sep # t) = s # splitOn sep t"
  by (induction s) auto

lemma colon_twoDigits: "n < 100 \<Longrightarrow> CHR '':'' \<notin> set (twoDigits n)"
proof -
  assume "n < 100"
  then have a: "n div 10 < 10" and b: "n mod 10 < 10" by auto
  from digitChar_props(4) [OF a] digitChar_props(4) [OF b]
  show ?thesis by (auto simp add: twoDigits_def)
qed

lemma timeMinutes_timeText:
  assumes "h < 100" "m < 100" "s < 100"
  shows "timeMinutes (timeText h m s) = Fin (of_nat (h * 60 + m))"
proof -
  have "splitOn CHR '':'' (timeText h m s) = [twoDigits h, twoDigits m, twoDigits s]"
    using assms
    by (simp add: timeText_def splitOn_append splitOn_no_sep colon_twoDigits)
  then show ?thesis
    using assms by (simp add: timeMinutes_def element_def Number_str_twoDigits)
qed

text \<open>
  C7.  For a dealer that exists, an instant that the dealer's time zone converts to the
  wall clock \<open>z\<close>, and calling hours stored as \<open>HH:MM:SS\<close>, the window check
  is true exactly when the local weekday is one of the allowed days and the local
  minute of the day lies between the start minute and the end minute, both included;
  one minute past the end minute it is false.
\<close>

theorem isWithinCallingWindow_iff:
  assumes "getDealer db dealerId = Inr d"
    and "toZonedTime date (dealer_timezone d) = Some z"
    and "callingHoursStart (getCallingProfile db dealerId) = timeText sh sm ss"
    and "callingHoursEnd (getCallingProfile db dealerId) = timeText eh em es"
    and "sh < 100" "sm < 100" "ss < 100" "eh < 100" "em < 100" "es < 100"
  shows "isWithinCallingWindow toZonedTime db dealerId date =
           Inr (getDay z \<in> set (callingDaysOfWeek (getCallingProfile db dealerId))
                \<and> int (sh * 60 + sm) \<le> getHours z * 60 + getMinutes z
                \<and> getHours z * 60 + getMinutes z \<le> int (eh * 60 + em))
         \<and> (getHours z * 60 + getMinutes z = int (eh * 60 + em) + 1 \<longrightarrow>
              isWithinCallingWindow toZonedTime db dealerId date = Inr False)"
proof -
  have "isWithinCallingWindow toZonedTime db dealerId date =
           Inr (getDay z \<in> set (callingDaysOfWeek (getCallingProfile db dealerId))
                \<and> int (sh * 60 + sm) \<le> getHours z * 60 + getMinutes z
                \<and> getHours z * 60 + getMinutes z \<le> int (eh * 60 + em))"
    using assms
    by (simp add: isWithinCallingWindow_def Let_def timeMinutes_timeText js_ge_def
        of_int_le_iff [where 'a = rat, symmetric] del: of_int_le_iff of_nat_add of_nat_mult)
  then show ?thesis by simp
qed


lemma windowDb_dealer:
  "getDealer windowDb ''d1'' = Inr \<lparr>dealer_id = ''d1'', dealer_status = ''active'',
                                    dealer_timezone = ''America/New_York''\<rparr>"
  by (simp add: getDealer_def windowDb_def emptyDb_def findFirst_def)

lemma windowDb_profile:
  "callingHoursStart (getCallingProfile windowDb ''d1'') = timeText 8 0 0"
  "callingHoursEnd (getCallingProfile windowDb ''d1'') = timeText 20 0 0"
  "callingDaysOfWeek (getCallingProfile windowDb ''d1'') = [1, 2, 3, 4, 5, 6]"
  by (simp_all add: getCallingProfile_def windowDb_def emptyDb_def findFirst_def
      defaultProfile_def timeText_def twoDigits_def digitChar_def)

text \<open>
  The statement under the default profile (08:00 to 20:00, Monday to Saturday): Monday
  20:00 is inside, Monday 20:01 and Sunday 14:00 are outside.
\<close>

theorem isWithinCallingWindow_iff_witness:
  "isWithinCallingWindow (\<lambda>t tz. Some \<lparr>getDay = 1, getHours = 20, getMinutes = 0\<rparr>)
       windowDb ''d1'' 0 = Inr True
   \<and> isWithinCallingWindow (\<lambda>t tz. Some \<lparr>getDay = 1, getHours = 20, getMinutes = 1\<rparr>)
       windowDb ''d1'' 0 = Inr False
   \<and> isWithinCallingWindow (\<lambda>t tz. Some \<lparr>getDay = 0, getHours = 14, getMinutes = 0\<rparr>)
       windowDb ''d1'' 0 = Inr False"
proof -
  have a: "isWithinCallingWindow (\<lambda>t tz. Some \<lparr>getDay = 1, getHours = 20, getMinutes = 0\<rparr>)
       windowDb ''d1'' 0 = Inr True"
    using isWithinCallingWindow_iff [OF windowDb_dealer _ windowDb_profile(1) windowDb_profile(2),
        where toZonedTime = "\<lambda>t tz. Some \<lparr>getDay = 1, getHours = 20, getMinutes = 0\<rparr>"
          and z = "\<lparr>getDay = 1, getHours = 20, getMinutes = 0\<rparr>" and date = 0]
    by (simp add: windowDb_profile(3))
  have b: "isWithinCallingWindow (\<lambda>t tz. Some \<lparr>getDay = 1, getHours = 20, getMinutes = 1\<rparr>)
       windowDb ''d1'' 0 = Inr False"
    using isWithinCallingWindow_iff [OF windowDb_dealer _ windowDb_profile(1) windowDb_profile(2),
        where toZonedTime = "\<lambda>t tz. Some \<lparr>getDay = 1, getHours = 20, getMinutes = 1\<rparr>"
          and z = "\<lparr>getDay = 1, getHours = 20, getMinutes = 1\<rparr>" and date = 0]
    by (simp add: windowDb_profile(3))
  have c: "isWithinCallingWindow (\<lambda>t tz. Some \<lparr>getDay = 0, getHours = 14, getMinutes = 0\<rparr>)
       windowDb ''d1'' 0 = Inr False"
    using isWithinCallingWindow_iff [OF windowDb_dealer _ windowDb_profile(1) windowDb_profile(2),
        where toZonedTime = "\<lambda>t tz. Some \<lparr>getDay = 0, getHours = 14, getMinutes = 0\<rparr>"
          and z = "\<lparr>getDay = 0, getHours = 14, getMinutes = 0\<rparr>" and date = 0]
    by (simp add: windowDb_profile(3))
  from a b c show ?thesis by blast
qed

subsection \<open>Rate limits\<close>

lemma getRateLimitState_usage:
  "concurrentCalls (getRateLimitState db dealerId) = 0
   \<and> callsThisHour (getRateLimitState db dealerId) = 0"
  by (simp add: getRateLimitState_def Let_def)

text \<open>
  C2.  A dealer with three calls in progress under the default profile (at most three
  concurrent calls) is at the ceiling.  The state reports no call in flight, so
  \<open>checkRateLimits\<close> passes; the job step fails on the missing method.
\<close>

theorem checkRateLimits_three_in_flight:
  "map cs_dealerId (callSessions busyDb) = [''d1'', ''d1'', ''d1'']
   \<and> map cs_status (callSessions busyDb)
       = [JStr ''in_progress'', JStr ''in_progress'', JStr ''in_progress'']
   \<and> maxConcurrentCalls (getCallingProfile busyDb ''d1'') = 3
   \<and> concurrentCalls (getRateLimitState busyDb ''d1'') = 0
   \<and> checkRateLimits busyDb ''d1'' = Inr ()
   \<and> step_check_rate_limits busyDb ''d1''
       = Inl (TypeError ''dealerService.getCurrentConcurrentCalls is not a function'')"
  by (simp add: busyDb_def emptyDb_def exampleSession_def checkRateLimits_def
      getRateLimitState_def getCallingProfile_def findFirst_def defaultProfile_def
      step_check_rate_limits_def)

subsection \<open>Query results\<close>

lemma permutes_set: "permutes returned \<Longrightarrow> set (returned rows) = set rows"
  by (metis permutes_def mset_eq_setD)

lemma storageDriver_permutes:
  "permutes (returnedRules storageDriver)" "permutes (returnedUsers storageDriver)"
  "permutes (returnedAttempts storageDriver)" "permutes (returnedStoreRules storageDriver)"
  by (simp_all add: permutes_def storageDriver_def)

lemma reverseDriver_permutes:
  "permutes (returnedRules reverseDriver)" "permutes (returnedUsers reverseDriver)"
  "permutes (returnedAttempts reverseDriver)" "permutes (returnedStoreRules reverseDriver)"
  by (simp_all add: permutes_def reverseDriver_def)

lemma orderByDesc_hd:
  assumes "rows \<noteq> []" and "permutes returned"
  shows "key (hd (orderByDesc returned key rows)) = Max (key ` set rows)"
proof -
  let ?ys = "sort_key (\<lambda>r. - key r) (returned rows)"
  have st: "set ?ys = set rows" using assms(2) by (simp add: permutes_set)
  have ne: "?ys \<noteq> []" using assms(1) st by (metis set_empty)
  have srt: "sorted (map (\<lambda>r. - key r) ?ys)" by simp
  obtain y ys where ys: "?ys = y # ys" using ne by (cases ?ys) auto
  have "\<forall>z \<in> set rows. key z \<le> key y"
  proof
    fix z assume "z \<in> set rows"
    then have "z \<in> set (y # ys)" using st ys by simp
    then show "key z \<le> key y" using srt ys by auto
  qed
  moreover have "y \<in> set rows" using st ys by (metis list.set_intros(1))
  ultimately have "Max (key ` set rows) = key y"
    by (intro Max_eqI) auto
  then show ?thesis by (simp add: orderByDesc_def ys)
qed

lemma sort_key_desc_sorted:
  "sorted_wrt (\<lambda>a b. key b \<le> (key a :: int)) (sort_key (\<lambda>r. - key r) rows)"
proof -
  have "sorted (map (\<lambda>r. - key r) (sort_key (\<lambda>r. - key r) rows))" by simp
  then show ?thesis
    by (simp add: sorted_wrt_map)
qed

lemma filter_key_singleton:
  assumes "distinct (map key zs)" and "k \<in> set zs"
  shows "filter (\<lambda>x. key k = key x) zs = [k]"
  using assms
proof (induction zs)
  case Nil
  then show ?case by simp
next
  case (Cons z zs)
  show ?case
  proof (cases "k = z")
    case True
    have "filter (\<lambda>x. key z = key x) zs = []"
      using Cons.prems(1) by (auto simp: filter_empty_conv)
    with True show ?thesis by simp
  next
    case False
    with Cons.prems have kin: "k \<in> set zs" by simp
    then have "key k \<in> key ` set zs" by (rule imageI)
    then have "key k \<noteq> key z" using Cons.prems(1) by auto
    with Cons.IH kin Cons.prems(1) show ?thesis by simp
  qed
qed

lemma permutes_distinct_map:
  assumes "permutes returned" and "distinct (map key rows)"
  shows "distinct (map key (returned rows))"
proof -
  have "mset (map key (returned rows)) = mset (map key rows)"
    using assms(1) by (simp add: permutes_def)
  then show ?thesis using assms(2) by (metis mset_eq_imp_distinct_iff)
qed

lemma sort_key_unique:
  assumes "mset xs = mset ys" and "distinct (map f xs)"
  shows "sort_key f xs = sort_key f ys"
proof -
  have "mset (map f xs) = mset (map f ys)" using assms(1) by simp
  then have dy: "distinct (map f ys)" using assms(2) by (metis mset_eq_imp_distinct_iff)
  have st: "set xs = set ys" using assms(1) by (rule mset_eq_setD)
  show ?thesis
  proof (rule properties_for_sort_key)
    show "mset (sort_key f ys) = mset xs" using assms(1) by simp
    show "sorted (map f (sort_key f ys))" by simp
    fix k assume "k \<in> set (sort_key f ys)"
    then have k: "k \<in> set ys" by simp
    have "filter (\<lambda>x. f k = f x) (sort_key f ys) = filter (\<lambda>x. f k = f x) ys"
      using sort_key_stable [of f "f k" ys] by (simp add: eq_commute)
    also have "\<dots> = [k]"
      using filter_key_singleton [OF dy k] .
    also have "\<dots> = filter (\<lambda>x. f k = f x) xs"
      using filter_key_singleton [OF assms(2), of k] k st by simp
    finally show "filter (\<lambda>x. f k = f x) (sort_key f ys) = filter (\<lambda>x. f k = f x) xs" .
  qed
qed

lemma orderByDesc_unique:
  assumes "permutes r" and "permutes r'" and "distinct (map key rows)"
  shows "orderByDesc r key rows = orderByDesc r' key rows"
proof -
  have m: "mset (r rows) = mset (r' rows)"
    using assms(1,2) by (simp add: permutes_def)
  have "distinct (map key (r rows))"
    using assms(1,3) by (rule permutes_distinct_map)
  then have "distinct (map (\<lambda>x. - key x) (r rows))"
    by (simp add: distinct_map inj_on_def)
  with m show ?thesis
    unfolding orderByDesc_def by (rule sort_key_unique)
qed

lemma orderByDescNullable_unique:
  assumes "permutes r" and "permutes r'" and "distinct (map key rows)"
  shows "orderByDescNullable r key rows = orderByDescNullable r' key rows"
proof -
  let ?N = "\<lambda>x. key x = None"
  let ?Q = "\<lambda>x. key x \<noteq> None"
  have m: "mset (r rows) = mset (r' rows)"
    using assms(1,2) by (simp add: permutes_def)
  have d: "distinct (map key (r rows))"
    using assms(1,3) by (rule permutes_distinct_map)
  have mN: "mset (filter ?N (r rows)) = mset (filter ?N (r' rows))"
    using m by simp
  have dN: "distinct (map key (filter ?N (r rows)))"
    using d by (rule distinct_map_filter)
  have none: "filter ?N (r rows) = filter ?N (r' rows)"
  proof (cases "filter ?N (r rows)")
    case Nil
    with mN show ?thesis by simp
  next
    case (Cons a as)
    have "as = []"
    proof (cases as)
      case Nil
      then show ?thesis .
    next
      case (Cons b bs)
      have "set (filter ?N (r rows)) = set (a # b # bs)"
        using \<open>filter ?N (r rows) = a # as\<close> Cons by simp
      then have "key a = None" "key b = None" by auto
      moreover have "key a \<noteq> key b"
        using dN \<open>filter ?N (r rows) = a # as\<close> Cons by simp
      ultimately show ?thesis by simp
    qed
    then have one: "filter ?N (r rows) = [a]" using Cons by simp
    then have "mset (filter ?N (r' rows)) = mset [a]" using mN by (simp del: mset_filter)
    then have "filter ?N (r' rows) = [a]" by (simp del: mset_filter)
    with one show ?thesis by simp
  qed
  have mQ: "mset (filter ?Q (r rows)) = mset (filter ?Q (r' rows))"
    using m by simp
  have "distinct (filter ?Q (r rows))"
    using d by (simp add: distinct_map)
  moreover have "inj_on (\<lambda>x. - the (key x)) (set (filter ?Q (r rows)))"
  proof (rule inj_onI)
    fix x y
    assume x: "x \<in> set (filter ?Q (r rows))" and y: "y \<in> set (filter ?Q (r rows))"
      and e: "- the (key x) = - the (key y)"
    from x y e have "key x = key y" by (auto intro: option.expand)
    moreover have "inj_on key (set (r rows))" using d by (simp add: distinct_map)
    ultimately show "x = y" using x y by (auto dest: inj_onD)
  qed
  ultimately have "distinct (map (\<lambda>x. - the (key x)) (filter ?Q (r rows)))"
    by (simp add: distinct_map)
  with mQ have "sort_key (\<lambda>x. - the (key x)) (filter ?Q (r rows))
                = sort_key (\<lambda>x. - the (key x)) (filter ?Q (r' rows))"
    by (rule sort_key_unique)
  with none show ?thesis by (simp add: orderByDescNullable_def)
qed

lemma takeWhile_filter:
  "P a \<Longrightarrow> filter P (takeWhile (\<lambda>r. r \<noteq> a) xs) = takeWhile (\<lambda>r. r \<noteq> a) (filter P xs)"
  by (induction xs) auto

lemma tier_desc:
  "filter (\<lambda>r. key r = (p::int)) (sort_key (\<lambda>r. - key r) rows) = filter (\<lambda>r. key r = p) rows"
  using sort_key_stable [of "\<lambda>r. - key r" "- p" rows] by simp

subsection \<open>Session updates\<close>





text \<open>The status callback answers 500 and writes nothing when the update is refused.\<close>

lemma statusCallback_refused:
  "statusCallback storageDriver doneDb 1900 2000 ''CA1'' ''__proto__'' None = (doneDb, 500)"
  "statusCallback storageDriver doneDb 1900 2000 ''CA1'' ''completed'' (Some NaN) = (doneDb, 500)"
  "statusCallback storageDriver doneDb 1900 2000 ''CA1'' ''completed'' (Some (Fin 2147483648))
     = (doneDb, 500)"
  by (simp_all add: doneDb_def emptyDb_def exampleSession_def statusCallback_def
      statusUpdates_def getCallSessionBySignalwireSid_def findFirst_def eqCol_def
      updateCallSession_def noUpdate_def mapSignalWireStatus_def js_get_def statusMap_def
      objectPrototypeKeys_def storageDriver_def exampleWritable_def int32_def)

subsection \<open>Creating call attempts\<close>

text \<open>
  C9 (as stated) fails: after the step has created attempt 1, running it again creates
  attempt 2, and creating attempt 1 again is refused by the unique index with an error
  rather than recognised as done.
\<close>

theorem create_call_attempt_rerun:
  "fst (step_create_call_attempt storageDriver baseDb ''a1'' ''d1'' ''l1'') = onceDb
   \<and> map ca_attemptNumber
         (callAttempts (fst (step_create_call_attempt storageDriver onceDb ''a2'' ''d1'' ''l1'')))
       = [1, 2]
   \<and> fst (step_create_call_attempt storageDriver onceDb ''a2'' ''d1'' ''l1'') \<noteq> onceDb
   \<and> createCallAttempt onceDb ''a2'' ''d1'' ''l1'' 1 None
       = (onceDb, Inl (PostgresError ''unique_lead_attempt''))"
  by (simp add: step_create_call_attempt_def createCallAttempt_def insertCallAttempt_def
      getLatestCallAttempt_def nextAttemptNumber_def orderByDesc_def getCallingProfile_def
      findFirst_def defaultProfile_def onceDb_def baseDb_def emptyDb_def exampleAttempt_def
      storageDriver_def)

lemma insertCallAttempt_keys:
  "distinct (attemptKeys db) \<Longrightarrow> distinct (attemptKeys (fst (insertCallAttempt db row)))"
  by (auto simp: insertCallAttempt_def attemptKeys_def list_ex_iff)

text \<open>
  C9 (as amended).  Creating an attempt with the lead and number of a stored attempt
  adds no record: the call fails and leaves the database as it was, and in every case
  the (lead, number) pairs stay free of duplicates.
\<close>

theorem createCallAttempt_unique:
  "(distinct (attemptKeys db) \<longrightarrow>
      distinct (attemptKeys (fst (createCallAttempt db newId dealerId leadId n sched))))
   \<and> ((leadId, n) \<in> set (attemptKeys db) \<longrightarrow>
        createCallAttempt db newId dealerId leadId n sched =
          (db, Inl (if n > maxAttemptsPerLead (getCallingProfile db dealerId)
                    then MaxAttemptsError leadId (maxAttemptsPerLead (getCallingProfile db dealerId))
                    else PostgresError ''unique_lead_attempt'')))"
  by (auto simp: createCallAttempt_def Let_def insertCallAttempt_keys insertCallAttempt_def
      attemptKeys_def list_ex_iff)

text \<open>
  The amended statement at the database holding attempt 1.
\<close>

theorem createCallAttempt_unique_witness:
  "distinct (attemptKeys onceDb) \<and> (''l1'', 1) \<in> set (attemptKeys onceDb)
   \<and> distinct (attemptKeys (fst (createCallAttempt onceDb ''a2'' ''d1'' ''l1'' 1 None)))
   \<and> createCallAttempt onceDb ''a2'' ''d1'' ''l1'' 1 None
       = (onceDb, Inl (PostgresError ''unique_lead_attempt''))"
proof -
  have d: "distinct (attemptKeys onceDb)"
    by (simp add: attemptKeys_def onceDb_def baseDb_def emptyDb_def)
  have m: "(''l1'', 1) \<in> set (attemptKeys onceDb)"
    by (simp add: attemptKeys_def onceDb_def baseDb_def emptyDb_def exampleAttempt_def)
  have p: "maxAttemptsPerLead (getCallingProfile onceDb ''d1'') = 3"
    by (simp add: getCallingProfile_def findFirst_def defaultProfile_def onceDb_def baseDb_def
        emptyDb_def)
  from createCallAttempt_unique [of onceDb "''a2''" "''d1''" "''l1''" 1 None] d m p
  show ?thesis by simp
qed

subsection \<open>Retry scheduler\<close>

lemma getLatestCallAttempt_cases:
  assumes "permutes (returnedAttempts pg)"
  shows "getLatestCallAttempt pg db leadId =
     (if attemptNumbers db leadId = [] then Null
      else Row (hd (orderByDesc (returnedAttempts pg) ca_attemptNumber
                     (filter (\<lambda>a. ca_leadId a = leadId) (callAttempts db)))))"
proof -
  let ?rows = "filter (\<lambda>a. ca_leadId a = leadId) (callAttempts db)"
  let ?res = "orderByDesc (returnedAttempts pg) ca_attemptNumber ?rows"
  have st: "set ?res = set ?rows"
    using assms by (simp add: orderByDesc_def permutes_set)
  show ?thesis
  proof (cases ?res)
    case Nil
    then have "?rows = []" using st by (metis set_empty)
    with Nil show ?thesis
      by (simp add: getLatestCallAttempt_def attemptNumbers_def)
  next
    case (Cons y ys)
    then have "?rows \<noteq> []" using st by (metis set_empty list.distinct(1))
    with Cons show ?thesis
      by (simp add: getLatestCallAttempt_def attemptNumbers_def)
  qed
qed

lemma nextAttemptNumber_spec:
  assumes "permutes (returnedAttempts pg)"
  shows "nextAttemptNumber (getLatestCallAttempt pg db leadId) = spec_nextAttemptNumber db leadId"
proof (cases "attemptNumbers db leadId = []")
  case True
  then show ?thesis
    by (simp add: getLatestCallAttempt_cases [OF assms] nextAttemptNumber_def
        spec_nextAttemptNumber_def)
next
  case False
  then have ne: "filter (\<lambda>a. ca_leadId a = leadId) (callAttempts db) \<noteq> []"
    by (simp add: attemptNumbers_def)
  have "ca_attemptNumber (hd (orderByDesc (returnedAttempts pg) ca_attemptNumber
            (filter (\<lambda>a. ca_leadId a = leadId) (callAttempts db))))
        = Max (set (attemptNumbers db leadId))"
    using orderByDesc_hd [OF ne assms, of ca_attemptNumber] by (simp add: attemptNumbers_def)
  with False show ?thesis
    by (simp add: getLatestCallAttempt_cases [OF assms] nextAttemptNumber_def
        spec_nextAttemptNumber_def)
qed

lemma spec_nextAttemptNumber_fresh:
  "\<not> list_ex (\<lambda>a. ca_leadId a = leadId \<and> ca_attemptNumber a = spec_nextAttemptNumber db leadId)
       (callAttempts db)"
proof
  assume "list_ex (\<lambda>a. ca_leadId a = leadId \<and> ca_attemptNumber a = spec_nextAttemptNumber db leadId)
       (callAttempts db)"
  then obtain a where a: "a \<in> set (callAttempts db)" "ca_leadId a = leadId"
    "ca_attemptNumber a = spec_nextAttemptNumber db leadId"
    by (auto simp: list_ex_iff)
  have "a \<in> set (filter (\<lambda>a. ca_leadId a = leadId) (callAttempts db))"
    using a(1,2) by simp
  then have mem: "ca_attemptNumber a \<in> set (attemptNumbers db leadId)"
    unfolding attemptNumbers_def set_map by (rule imageI)
  then have "attemptNumbers db leadId \<noteq> []" by auto
  moreover have "ca_attemptNumber a \<le> Max (set (attemptNumbers db leadId))"
    using mem by simp
  ultimately show False using a(3) by (simp add: spec_nextAttemptNumber_def)
qed

lemma getRetryDelay_spec:
  assumes "1 \<le> n" "retryDelayMinutes (getCallingProfile db dealerId) \<noteq> []"
    "spec_retryDelay (getCallingProfile db dealerId) n \<noteq> 0"
  shows "getRetryDelay db dealerId n = spec_retryDelay (getCallingProfile db dealerId) n"
  using assms by (auto simp: getRetryDelay_def spec_retryDelay_def Let_def min_def)

text \<open>
  C6 (as stated) fails.  With the delay list \<open>[0]\<close> the first retry is due at once;
  \<open>retryDelayMinutes[0] || 1440\<close> takes the entry 0 for missing, and the retry is
  scheduled a day ahead.
\<close>

theorem scheduleRetry_zero_delay:
  "retryDelayMinutes (getCallingProfile zeroDelayDb ''d1'') = [0]
   \<and> spec_nextAttemptNumber zeroDelayDb ''l1'' = 1
   \<and> spec_retryDelay (getCallingProfile zeroDelayDb ''d1'') 1 = 0
   \<and> map ca_scheduledFor
         (callAttempts (fst (scheduleRetry storageDriver utcZone zeroDelayDb ''a1'' 5000 ''d1'' ''l1'')))
       = [Some (5000 + 1440 * 60000)]
   \<and> map ca_scheduledFor
         (callAttempts (fst (scheduleRetry storageDriver utcZone zeroDelayDb ''a1'' 5000 ''d1'' ''l1'')))
       \<noteq> [Some (5000 + 0 * 60000)]"
  by (simp add: zeroDelayDb_def baseDb_def emptyDb_def getCallingProfile_def findFirst_def
      defaultProfile_def spec_nextAttemptNumber_def attemptNumbers_def spec_retryDelay_def
      scheduleRetry_def getLatestCallAttempt_def orderByDesc_def nextAttemptNumber_def
      getRetryDelay_def createCallAttempt_def insertCallAttempt_def storageDriver_def
      utcZone_def addLocalMinutes_def)

text \<open>
  C6 (as amended).  Whatever order the database returns attempts of equal number in:
  \<^item> the next number is one more than the highest stored for the lead, or 1; when it
    exceeds the ceiling of the profile, \<open>scheduleRetry\<close> throws
    \<open>MaxAttemptsError\<close> and stores nothing;
  \<^item> otherwise, when the delay list is not empty, the number is at least 1, the entry at
    \<open>min (attemptNumber - 1, length - 1)\<close> is not 0 and the dealer and the lead have
    rows, it stores one attempt, scheduled for the instant at which the server's wall
    clock reads its present reading moved on by that many minutes;
  \<^item> when moreover the server's zone has the same offset at that reading as now, the
    attempt is scheduled for \<open>now\<close> plus that many minutes.
\<close>

theorem scheduleRetry_spec:
  assumes "permutes (returnedAttempts pg)"
  shows
  "(spec_nextAttemptNumber db leadId > maxAttemptsPerLead (getCallingProfile db dealerId) \<longrightarrow>
      scheduleRetry pg zone db newId now dealerId leadId
        = (db, Inl (MaxAttemptsError leadId (maxAttemptsPerLead (getCallingProfile db dealerId)))))
   \<and> (spec_nextAttemptNumber db leadId \<le> maxAttemptsPerLead (getCallingProfile db dealerId)
        \<and> 1 \<le> spec_nextAttemptNumber db leadId
        \<and> retryDelayMinutes (getCallingProfile db dealerId) \<noteq> []
        \<and> spec_retryDelay (getCallingProfile db dealerId) (spec_nextAttemptNumber db leadId) \<noteq> 0
        \<and> list_ex (\<lambda>d. dealer_id d = dealerId) (dealers db)
        \<and> list_ex (\<lambda>l. lead_id l = leadId) (leads db)
      \<longrightarrow>
      scheduleRetry pg zone db newId now dealerId leadId
        = (db\<lparr>callAttempts := callAttempts db @
               [\<lparr>ca_id = newId, ca_dealerId = dealerId, ca_leadId = leadId,
                 ca_callSessionId = None,
                 ca_attemptNumber = spec_nextAttemptNumber db leadId,
                 ca_status = ''scheduled'',
                 ca_scheduledFor = Some (utcTime zone (localTime zone now
                     + spec_retryDelay (getCallingProfile db dealerId)
                         (spec_nextAttemptNumber db leadId) * 60000)),
                 ca_attemptedAt = None, ca_failureReason = None\<rparr>]\<rparr>,
           Inr \<lparr>ca_id = newId, ca_dealerId = dealerId, ca_leadId = leadId,
                 ca_callSessionId = None,
                 ca_attemptNumber = spec_nextAttemptNumber db leadId,
                 ca_status = ''scheduled'',
                 ca_scheduledFor = Some (utcTime zone (localTime zone now
                     + spec_retryDelay (getCallingProfile db dealerId)
                         (spec_nextAttemptNumber db leadId) * 60000)),
                 ca_attemptedAt = None, ca_failureReason = None\<rparr>))
   \<and> (spec_nextAttemptNumber db leadId \<le> maxAttemptsPerLead (getCallingProfile db dealerId)
        \<and> 1 \<le> spec_nextAttemptNumber db leadId
        \<and> retryDelayMinutes (getCallingProfile db dealerId) \<noteq> []
        \<and> spec_retryDelay (getCallingProfile db dealerId) (spec_nextAttemptNumber db leadId) \<noteq> 0
        \<and> list_ex (\<lambda>d. dealer_id d = dealerId) (dealers db)
        \<and> list_ex (\<lambda>l. lead_id l = leadId) (leads db)
        \<and> offsetOfReading zone (localTime zone now
              + spec_retryDelay (getCallingProfile db dealerId) (spec_nextAttemptNumber db leadId)
                * 60000)
            = offsetAt zone now
      \<longrightarrow>
      (\<exists>attempt. snd (scheduleRetry pg zone db newId now dealerId leadId) = Inr attempt
         \<and> callAttempts (fst (scheduleRetry pg zone db newId now dealerId leadId))
             = callAttempts db @ [attempt]
         \<and> ca_scheduledFor attempt
             = Some (now + spec_retryDelay (getCallingProfile db dealerId)
                             (spec_nextAttemptNumber db leadId) * 60000)))"
proof -
  let ?n = "spec_nextAttemptNumber db leadId"
  let ?profile = "getCallingProfile db dealerId"
  let ?l = "localTime zone now + spec_retryDelay ?profile ?n * 60000"
  let ?row = "\<lambda>t. \<lparr>ca_id = newId, ca_dealerId = dealerId, ca_leadId = leadId,
                 ca_callSessionId = None, ca_attemptNumber = ?n, ca_status = ''scheduled'',
                 ca_scheduledFor = Some t, ca_attemptedAt = None, ca_failureReason = None\<rparr>"
  let ?h = "?n \<le> maxAttemptsPerLead ?profile \<and> 1 \<le> ?n \<and> retryDelayMinutes ?profile \<noteq> []
        \<and> spec_retryDelay ?profile ?n \<noteq> 0
        \<and> list_ex (\<lambda>d. dealer_id d = dealerId) (dealers db)
        \<and> list_ex (\<lambda>l. lead_id l = leadId) (leads db)"
  have stored: "scheduleRetry pg zone db newId now dealerId leadId
        = (db\<lparr>callAttempts := callAttempts db @ [?row (utcTime zone ?l)]\<rparr>,
           Inr (?row (utcTime zone ?l)))" if h: ?h
  proof -
    from h have d: "getRetryDelay db dealerId ?n = spec_retryDelay ?profile ?n"
      by (intro getRetryDelay_spec) simp_all
    from h have le: "\<not> ?n > maxAttemptsPerLead ?profile" by simp
    from h have fk: "list_ex (\<lambda>d. dealer_id d = dealerId) (dealers db)"
      "list_ex (\<lambda>l. lead_id l = leadId) (leads db)" by simp_all
    show ?thesis
      using le fk spec_nextAttemptNumber_fresh [of leadId db]
      by (simp add: scheduleRetry_def Let_def nextAttemptNumber_spec [OF assms]
          createCallAttempt_def d insertCallAttempt_def addLocalMinutes_def)
  qed
  have refused: "scheduleRetry pg zone db newId now dealerId leadId
        = (db, Inl (MaxAttemptsError leadId (maxAttemptsPerLead ?profile)))"
    if "?n > maxAttemptsPerLead ?profile"
    using that
    by (simp add: scheduleRetry_def Let_def nextAttemptNumber_spec [OF assms] createCallAttempt_def)
  have same: "utcTime zone ?l = now + spec_retryDelay ?profile ?n * 60000"
    if "offsetOfReading zone ?l = offsetAt zone now"
    using that by (simp add: offsetOfReading_def offsetAt_def)
  show ?thesis
  proof (intro conjI impI)
    assume "?n > maxAttemptsPerLead ?profile"
    then show "scheduleRetry pg zone db newId now dealerId leadId
        = (db, Inl (MaxAttemptsError leadId (maxAttemptsPerLead ?profile)))"
      by (rule refused)
  next
    assume ?h
    then show "scheduleRetry pg zone db newId now dealerId leadId
        = (db\<lparr>callAttempts := callAttempts db @ [?row (utcTime zone ?l)]\<rparr>,
           Inr (?row (utcTime zone ?l)))"
      by (rule stored)
  next
    assume a: "?n \<le> maxAttemptsPerLead ?profile \<and> 1 \<le> ?n \<and> retryDelayMinutes ?profile \<noteq> []
        \<and> spec_retryDelay ?profile ?n \<noteq> 0
        \<and> list_ex (\<lambda>d. dealer_id d = dealerId) (dealers db)
        \<and> list_ex (\<lambda>l. lead_id l = leadId) (leads db)
        \<and> offsetOfReading zone ?l = offsetAt zone now"
    then have ?h by simp
    then have s: "scheduleRetry pg zone db newId now dealerId leadId
        = (db\<lparr>callAttempts := callAttempts db @ [?row (utcTime zone ?l)]\<rparr>,
           Inr (?row (utcTime zone ?l)))"
      by (rule stored)
    from a have t: "utcTime zone ?l = now + spec_retryDelay ?profile ?n * 60000"
      by (intro same) simp
    show "\<exists>attempt. snd (scheduleRetry pg zone db newId now dealerId leadId) = Inr attempt
         \<and> callAttempts (fst (scheduleRetry pg zone db newId now dealerId leadId))
             = callAttempts db @ [attempt]
         \<and> ca_scheduledFor attempt = Some (now + spec_retryDelay ?profile ?n * 60000)"
      unfolding s using t by simp
  qed
qed

lemma retriedDb_profile: "getCallingProfile (retriedDb ns) ''d1'' = defaultProfile ''d1''"
  by (simp add: getCallingProfile_def findFirst_def retriedDb_def baseDb_def emptyDb_def)

lemma retriedDb_next:
  "spec_nextAttemptNumber (retriedDb [1, 2]) ''l1'' = 3"
  "spec_nextAttemptNumber (retriedDb [1, 2, 3]) ''l1'' = 4"
  "spec_nextAttemptNumber (retriedDb [1, 2, 3, 4]) ''l1'' = 5"
  by (simp_all add: spec_nextAttemptNumber_def attemptNumbers_def retriedDb_def baseDb_def
      emptyDb_def exampleAttempt_def)

lemma retriedDb_rows:
  "list_ex (\<lambda>d. dealer_id d = ''d1'') (dealers (retriedDb ns))"
  "list_ex (\<lambda>l. lead_id l = ''l1'') (leads (retriedDb ns))"
  by (simp_all add: retriedDb_def baseDb_def emptyDb_def)

text \<open>
  The amended statement with ceiling 3 and delays \<open>[30, 120, 1440]\<close>: attempt 3 is
  scheduled 1440 minutes ahead on a server without offset changes, and 1380 minutes
  ahead on a server whose clock is put forward by an hour in between; attempts 4 and 5
  are both refused.
\<close>

theorem scheduleRetry_spec_witness:
  "permutes (returnedAttempts reverseDriver)
   \<and> map ca_scheduledFor
         (callAttempts (fst (scheduleRetry reverseDriver utcZone (retriedDb [1, 2]) ''b'' 5000
                               ''d1'' ''l1'')))
       = [None, None, Some (5000 + 1440 * 60000)]
   \<and> map ca_scheduledFor
         (callAttempts (fst (scheduleRetry reverseDriver springZone (retriedDb [1, 2]) ''b''
                               (- 1800000) ''d1'' ''l1'')))
       = [None, None, Some (- 1800000 + 1380 * 60000)]
   \<and> snd (scheduleRetry reverseDriver utcZone (retriedDb [1, 2, 3]) ''b'' 5000 ''d1'' ''l1'')
       = Inl (MaxAttemptsError ''l1'' 3)
   \<and> scheduleRetry reverseDriver utcZone (retriedDb [1, 2, 3, 4]) ''b'' 5000 ''d1'' ''l1''
       = (retriedDb [1, 2, 3, 4], Inl (MaxAttemptsError ''l1'' 3))"
proof -
  note perm = reverseDriver_permutes(3)
  have p: "maxAttemptsPerLead (defaultProfile ''d1'') = 3"
    "retryDelayMinutes (defaultProfile ''d1'') = [30, 120, 1440]"
    by (simp_all add: defaultProfile_def)
  have d: "spec_retryDelay (defaultProfile ''d1'') 3 = 1440"
    by (simp add: spec_retryDelay_def p)
  have "fst (scheduleRetry reverseDriver utcZone (retriedDb [1, 2]) ''b'' 5000 ''d1'' ''l1'')
        = (retriedDb [1, 2])\<lparr>callAttempts := callAttempts (retriedDb [1, 2]) @
             [\<lparr>ca_id = ''b'', ca_dealerId = ''d1'', ca_leadId = ''l1'', ca_callSessionId = None,
               ca_attemptNumber = 3, ca_status = ''scheduled'',
               ca_scheduledFor = Some (5000 + 1440 * 60000),
               ca_attemptedAt = None, ca_failureReason = None\<rparr>]\<rparr>"
    using scheduleRetry_spec [OF perm, where db = "retriedDb [1, 2]" and leadId = "''l1''"
        and dealerId = "''d1''" and newId = "''b''" and now = 5000 and zone = utcZone]
    by (simp add: retriedDb_profile retriedDb_next retriedDb_rows p d utcZone_def)
  then have a: "map ca_scheduledFor
        (callAttempts (fst (scheduleRetry reverseDriver utcZone (retriedDb [1, 2]) ''b'' 5000
                              ''d1'' ''l1'')))
      = [None, None, Some (5000 + 1440 * 60000)]"
    by (simp add: retriedDb_def baseDb_def emptyDb_def exampleAttempt_def)
  have "fst (scheduleRetry reverseDriver springZone (retriedDb [1, 2]) ''b'' (- 1800000)
               ''d1'' ''l1'')
        = (retriedDb [1, 2])\<lparr>callAttempts := callAttempts (retriedDb [1, 2]) @
             [\<lparr>ca_id = ''b'', ca_dealerId = ''d1'', ca_leadId = ''l1'', ca_callSessionId = None,
               ca_attemptNumber = 3, ca_status = ''scheduled'',
               ca_scheduledFor = Some (- 1800000 + 1380 * 60000),
               ca_attemptedAt = None, ca_failureReason = None\<rparr>]\<rparr>"
    using scheduleRetry_spec [OF perm, where db = "retriedDb [1, 2]" and leadId = "''l1''"
        and dealerId = "''d1''" and newId = "''b''" and now = "- 1800000" and zone = springZone]
    by (simp add: retriedDb_profile retriedDb_next retriedDb_rows p d springZone_def)
  then have s: "map ca_scheduledFor
        (callAttempts (fst (scheduleRetry reverseDriver springZone (retriedDb [1, 2]) ''b''
                              (- 1800000) ''d1'' ''l1'')))
      = [None, None, Some (- 1800000 + 1380 * 60000)]"
    by (simp add: retriedDb_def baseDb_def emptyDb_def exampleAttempt_def)
  have b: "snd (scheduleRetry reverseDriver utcZone (retriedDb [1, 2, 3]) ''b'' 5000 ''d1'' ''l1'')
       = Inl (MaxAttemptsError ''l1'' 3)"
    using scheduleRetry_spec [OF perm, where db = "retriedDb [1, 2, 3]" and leadId = "''l1''"
        and dealerId = "''d1''" and newId = "''b''" and now = 5000 and zone = utcZone]
    by (simp add: retriedDb_profile retriedDb_next p)
  have c: "scheduleRetry reverseDriver utcZone (retriedDb [1, 2, 3, 4]) ''b'' 5000 ''d1'' ''l1''
       = (retriedDb [1, 2, 3, 4], Inl (MaxAttemptsError ''l1'' 3))"
    using scheduleRetry_spec [OF perm, where db = "retriedDb [1, 2, 3, 4]" and leadId = "''l1''"
        and dealerId = "''d1''" and newId = "''b''" and now = 5000 and zone = utcZone]
    by (simp add: retriedDb_profile retriedDb_next p)
  from perm a s b c show ?thesis by blast
qed

subsection \<open>Routing\<close>

lemma evaluateEntries_all:
  "evaluateEntries entries context = list_all (\<lambda>(key, v). evaluateCondition key v context) entries"
  by (induction entries "context" rule: evaluateEntries.induct) auto

lemma evaluateRuleConditions_spec:
  "evaluateRuleConditions (rule_conditions rule) context = spec_matches rule context"
  by (cases "rule_conditions rule")
    (simp_all add: evaluateRuleConditions_def spec_matches_def evaluateEntries_all)

lemma findFirst_find:
  "findFirst p rows = (case find p rows of None \<Rightarrow> Undefined | Some r \<Rightarrow> Row r)"
  by (induction rows) (auto simp: findFirst_def)

lemma routeRules_step:
  "routeRules pg db context (rule # rules) =
     (if spec_matches rule context then
        (case ruleOutcome pg db rule of
           Inl e \<Rightarrow> Inl e
         | Inr (Some target) \<Rightarrow> Inr target
         | Inr None \<Rightarrow> routeRules pg db context rules)
      else routeRules pg db context rules)"
  by (simp add: evaluateRuleConditions_spec ruleOutcome_def spec_fallbackRule_def
      findFirst_find split: sum.splits option.splits)

lemma getActiveRules_sorted:
  "sorted_wrt (\<lambda>a b. rule_priority a \<ge> rule_priority b) (getActiveRules pg db dealerId storeId)"
  by (simp add: getActiveRules_def Let_def orderByDesc_def sort_key_desc_sorted)

lemma getActiveRules_set:
  assumes "permutes (returnedRules pg)" and "permutes (returnedStoreRules pg)"
  shows "set (getActiveRules pg db dealerId storeId) = set (dealerRows db dealerId)"
  using assms
  by (auto simp: getActiveRules_def Let_def orderByDesc_def permutes_set dealerRows_def)

lemma resolveRuleTarget_error:
  "resolveRuleTarget pg db rule = Inl e \<Longrightarrow> (\<exists>m. e = PostgresError m) \<or> (\<exists>m. e = StorageError m)"
  by (auto simp: resolveRuleTarget_def findAvailableUserByDepartment_def
      split: if_splits jsval.splits binding.splits)

lemma ruleOutcome_error:
  "ruleOutcome pg db rule = Inl e \<Longrightarrow> (\<exists>m. e = PostgresError m) \<or> (\<exists>m. e = StorageError m)"
  by (auto simp: ruleOutcome_def split: sum.splits option.splits dest: resolveRuleTarget_error)

lemma routeRules_NoAvailableRep:
  "routeRules pg db context rules = Inl (NoAvailableRepError (ctx_dealerId context))
   \<longleftrightarrow> list_all (\<lambda>r. \<not> spec_matches r context \<or> ruleOutcome pg db r = Inr None) rules"
proof (induction rules)
  case Nil
  show ?case by simp
next
  case (Cons rule rules)
  show ?case
    unfolding routeRules_step
    using Cons.IH
    by (auto split: sum.splits option.splits dest: ruleOutcome_error)
qed

lemma routeRules_not_NoRoutingRule:
  "routeRules pg db context rules \<noteq> Inl (NoRoutingRuleError d)"
proof (induction rules)
  case Nil
  show ?case by simp
next
  case (Cons rule rules)
  show ?case
    unfolding routeRules_step
    using Cons.IH
    by (auto split: sum.splits option.splits dest: ruleOutcome_error)
qed

text \<open>
  C5 (as stated) fails.  The dealer has one rule, for the department \<open>new\<close>; the
  context is of the department \<open>service\<close>, so no rule matches.  \<open>route\<close> signals
  \<open>NoAvailableRepError\<close>, not \<open>NoRoutingRuleError\<close>.
\<close>

theorem route_no_match_signal:
  "map rule_conditions (getActiveRules storageDriver oneRuleDb ''d1'' None)
     = [[(''department'', JStr ''new'')]]
   \<and> \<not> evaluateRuleConditions [(''department'', JStr ''new'')] (exampleContext ''service'')
   \<and> route storageDriver oneRuleDb (exampleContext ''service'') = Inl (NoAvailableRepError ''d1'')
   \<and> route storageDriver oneRuleDb (exampleContext ''service'') \<noteq> Inl (NoRoutingRuleError ''d1'')"
  by (simp add: route_def getActiveRules_def given_def orderByDesc_def oneRuleDb_def emptyDb_def
      exampleRule_def exampleContext_def evaluateRuleConditions_def evaluateCondition_def
      contextProperties_def optional_def js_get_def storageDriver_def)

text \<open>
  C5 (as amended).  \<open>route\<close> signals \<open>NoRoutingRuleError\<close> exactly when the dealer
  has no active rule.  It signals \<open>NoAvailableRepError\<close> exactly when there are active
  rules and each of them either does not match the context or matches and yields no
  target, neither its own nor its fallback rule's, without an error being thrown.
\<close>

theorem route_error_signals:
  "(route pg db context = Inl (NoRoutingRuleError (ctx_dealerId context))
      \<longleftrightarrow> getActiveRules pg db (ctx_dealerId context) (ctx_storeId context) = [])
   \<and> (route pg db context = Inl (NoAvailableRepError (ctx_dealerId context))
      \<longleftrightarrow> getActiveRules pg db (ctx_dealerId context) (ctx_storeId context) \<noteq> []
          \<and> list_all (\<lambda>r. \<not> spec_matches r context \<or> ruleOutcome pg db r = Inr None)
                (getActiveRules pg db (ctx_dealerId context) (ctx_storeId context)))"
  by (simp add: route_def Let_def routeRules_NoAvailableRep routeRules_not_NoRoutingRule)

text \<open>
  The amended statement at a dealer without rules, at the dealer whose only rule does
  not match, and at a dealer whose only rule matches and is routed to a department
  given as a membership test, for which the query finds no user.
\<close>

theorem route_error_signals_witness:
  "route storageDriver emptyDb (exampleContext ''new'') = Inl (NoRoutingRuleError ''d1'')
   \<and> route storageDriver oneRuleDb (exampleContext ''service'') = Inl (NoAvailableRepError ''d1'')
   \<and> route storageDriver memberDb (exampleContext ''new'') = Inl (NoAvailableRepError ''d1'')"
proof -
  have e: "getActiveRules storageDriver emptyDb ''d1'' None = []"
    by (simp add: getActiveRules_def given_def orderByDesc_def emptyDb_def storageDriver_def)
  have o: "getActiveRules storageDriver oneRuleDb ''d1'' None
           = [exampleRule ''A'' 100 [(''department'', JStr ''new'')] ''user'' (Some ''repB'')]"
    by (simp add: getActiveRules_def given_def orderByDesc_def oneRuleDb_def emptyDb_def
        exampleRule_def storageDriver_def)
  have m: "\<not> spec_matches (exampleRule ''A'' 100 [(''department'', JStr ''new'')] ''user''
              (Some ''repB'')) (exampleContext ''service'')"
    by (simp add: spec_matches_def exampleRule_def exampleContext_def evaluateCondition_def
        contextProperties_def optional_def js_get_def)
  have g: "getActiveRules storageDriver memberDb ''d1'' None
           = [exampleRule ''M'' 100 [(''department'', JObj [(''in'', JArr [JStr ''new''])])]
                ''department'' None]"
    by (simp add: getActiveRules_def given_def orderByDesc_def memberDb_def emptyDb_def
        exampleRule_def storageDriver_def)
  have u: "ruleOutcome storageDriver memberDb
             (exampleRule ''M'' 100 [(''department'', JObj [(''in'', JArr [JStr ''new''])])]
                ''department'' None) = Inr None"
    by (simp add: ruleOutcome_def resolveRuleTarget_def findAvailableUserByDepartment_def
        js_get_def exampleRule_def storageDriver_def exampleSentAs_def usersOfDepartment_def
        orderByDescNullable_def memberDb_def emptyDb_def exampleUser_def eqCol_def
        spec_fallbackRule_def given_def)
  have a: "route storageDriver emptyDb (exampleContext ''new'') = Inl (NoRoutingRuleError ''d1'')"
    using route_error_signals [of storageDriver emptyDb "exampleContext ''new''"] e
    by (simp add: exampleContext_def)
  have b: "route storageDriver oneRuleDb (exampleContext ''service'')
           = Inl (NoAvailableRepError ''d1'')"
    using route_error_signals [of storageDriver oneRuleDb "exampleContext ''service''"] o m
    by (simp add: exampleContext_def)
  have c: "route storageDriver memberDb (exampleContext ''new'') = Inl (NoAvailableRepError ''d1'')"
    using route_error_signals [of storageDriver memberDb "exampleContext ''new''"] g u
    by (simp add: exampleContext_def)
  from a b c show ?thesis by simp
qed









lemma store_rules_first:
  assumes perm: "permutes (returnedRules pg)" and perm': "permutes (returnedStoreRules pg)"
    and g: "given storeId"
    and a: "a \<in> set (getActiveRules pg db dealerId storeId)" "rule_storeId a = storeId"
    and b: "rule_storeId b \<noteq> storeId" "rule_priority b = rule_priority a"
  shows "b \<notin> set (takeWhile (\<lambda>r. r \<noteq> a) (getActiveRules pg db dealerId storeId))"
proof
  let ?c = "\<lambda>r. rule_dealerId r = dealerId \<and> rule_active r"
  let ?S = "orderByDesc (returnedStoreRules pg) rule_priority
              (filter (\<lambda>r. ?c r \<and> eqCol (rule_storeId r) (the storeId)) (routingRules db))"
  let ?D = "orderByDesc (returnedRules pg) rule_priority (filter ?c (routingRules db))"
  let ?R = "getActiveRules pg db dealerId storeId"
  let ?P = "\<lambda>r. rule_priority r = rule_priority a"
  assume bin: "b \<in> set (takeWhile (\<lambda>r. r \<noteq> a) ?R)"
  from g have sid: "storeId = Some (the storeId)"
    by (cases storeId) (simp_all add: given_def)
  have R: "?R = sort_key (\<lambda>r. - rule_priority r) (?S @ ?D)"
    using g by (simp add: getActiveRules_def Let_def)
  have setS: "set ?S = {r \<in> set (routingRules db). ?c r \<and> rule_storeId r = storeId}"
    using perm' sid by (auto simp: orderByDesc_def permutes_set eqCol_def)
  have "a \<in> set (dealerRows db dealerId)"
    using a(1) getActiveRules_set [OF perm perm'] by simp
  then have aS: "a \<in> set ?S"
    using a(2) setS by (auto simp: dealerRows_def)
  have tier: "filter ?P ?R = filter ?P ?S @ filter ?P ?D"
    unfolding R by (simp add: tier_desc)
  have "b \<in> set (filter ?P (takeWhile (\<lambda>r. r \<noteq> a) ?R))"
    using bin b(2) by simp
  then have "b \<in> set (takeWhile (\<lambda>r. r \<noteq> a) (filter ?P ?S @ filter ?P ?D))"
    by (simp add: takeWhile_filter tier del: set_filter)
  moreover have "a \<in> set (filter ?P ?S)" using aS by simp
  ultimately have "b \<in> set (takeWhile (\<lambda>r. r \<noteq> a) (filter ?P ?S))"
    by (simp add: takeWhile_append1 del: set_filter)
  then have "b \<in> set ?S"
    by (meson set_takeWhileD filter_is_subset subsetD)
  then show False using b(1) setS by simp
qed

lemma getActiveRules_unique:
  assumes "permutes (returnedRules pg)" and "permutes (returnedRules pg')"
    and "permutes (returnedStoreRules pg)" and "permutes (returnedStoreRules pg')"
    and "distinct (map rule_priority (dealerRows db dealerId))"
  shows "getActiveRules pg db dealerId storeId = getActiveRules pg' db dealerId storeId"
proof -
  let ?c = "\<lambda>r. rule_dealerId r = dealerId \<and> rule_active r"
  have d: "distinct (map rule_priority (filter ?c (routingRules db)))"
    using assms(5) by (simp add: dealerRows_def)
  have "filter (\<lambda>r. ?c r \<and> eqCol (rule_storeId r) (the storeId)) (routingRules db)
        = filter (\<lambda>r. eqCol (rule_storeId r) (the storeId)) (filter ?c (routingRules db))"
    by (simp add: conj_commute)
  then have ds: "distinct (map rule_priority
       (filter (\<lambda>r. ?c r \<and> eqCol (rule_storeId r) (the storeId)) (routingRules db)))"
    using d by (simp add: distinct_map_filter del: filter_filter)
  show ?thesis
    using orderByDesc_unique [OF assms(1,2) d] orderByDesc_unique [OF assms(3,4) ds]
    by (simp add: getActiveRules_def Let_def)
qed

lemma usersOfDepartment_order:
  assumes "permutes (returnedUsers pg)" and "permutes u"
    and "distinct (map user_transferPriority (departmentRows db dealerId dep))"
  shows "usersOfDepartment (pg\<lparr>returnedRules := r, returnedStoreRules := r', returnedUsers := u\<rparr>)
           db dealerId dep
         = usersOfDepartment pg db dealerId dep"
  using orderByDescNullable_unique [OF assms(2,1), of user_transferPriority
      "departmentRows db dealerId dep"] assms(3)
  by (simp add: usersOfDepartment_def departmentRows_def)

lemma resolveRuleTarget_order:
  assumes "permutes (returnedUsers pg)" and "permutes u"
    and "\<forall>dealerId dep. distinct (map user_transferPriority (departmentRows db dealerId dep))"
  shows "resolveRuleTarget (pg\<lparr>returnedRules := r, returnedStoreRules := r', returnedUsers := u\<rparr>)
           db rule
         = resolveRuleTarget pg db rule"
  using assms
  by (simp add: resolveRuleTarget_def findAvailableUserByDepartment_def usersOfDepartment_order
      split: jsval.splits binding.splits)

lemma routeRules_order:
  assumes "permutes (returnedUsers pg)" and "permutes u"
    and "\<forall>dealerId dep. distinct (map user_transferPriority (departmentRows db dealerId dep))"
  shows "routeRules (pg\<lparr>returnedRules := r, returnedStoreRules := r', returnedUsers := u\<rparr>)
           db context rules
         = routeRules pg db context rules"
  by (induction rules)
    (simp_all add: resolveRuleTarget_order [OF assms]
      split: sum.splits option.splits js_row.splits)

text \<open>
  C3 (as stated) fails.  Two rules of the dealer have priority 5 and no store, one
  routed to voicemail and one to a rep.  The query orders by priority only.  On one and
  the same database \<open>route\<close> gives the voicemail target when the database returns
  the two rules in one order and the rep when it returns them in the other; and with
  the same rules stored the other way round each result is exchanged.  The rule ids
  take no part.
\<close>

theorem route_tie_order:
  "routingRules (tieDb True) = rev (routingRules (tieDb False))
   \<and> dealerUsers (tieDb True) = dealerUsers (tieDb False)
   \<and> map rule_priority (routingRules (tieDb False)) = [5, 5]
   \<and> map rule_storeId (routingRules (tieDb False)) = [None, None]
   \<and> map rule_id (routingRules (tieDb False)) = [''r1'', ''r2'']
   \<and> route storageDriver (tieDb False) (exampleContext ''new'')
       = Inr \<lparr>target_type = ''voicemail'', target_userId = None, target_user = None\<rparr>
   \<and> route reverseDriver (tieDb False) (exampleContext ''new'')
       = Inr (userTarget (exampleUser ''repB'' ''active''))
   \<and> route storageDriver (tieDb True) (exampleContext ''new'')
       = Inr (userTarget (exampleUser ''repB'' ''active''))
   \<and> route reverseDriver (tieDb True) (exampleContext ''new'')
       = Inr \<lparr>target_type = ''voicemail'', target_userId = None, target_user = None\<rparr>
   \<and> route storageDriver (tieDb False) (exampleContext ''new'')
       \<noteq> route reverseDriver (tieDb False) (exampleContext ''new'')
   \<and> route reverseDriver (tieDb False) (exampleContext ''new'')
       \<noteq> route reverseDriver (tieDb True) (exampleContext ''new'')"
  by (simp add: route_def getActiveRules_def given_def orderByDesc_def tieDb_def emptyDb_def
      exampleRule_def exampleContext_def evaluateRuleConditions_def resolveRuleTarget_def
      findAvailableUser_def findFirst_def exampleUser_def userTarget_def storageDriver_def
      reverseDriver_def)

text \<open>
  C3 (as amended).  Whatever order the database returns rows of equal sort key in:
  \<^item> the rules evaluated are the active rules of the dealer;
  \<^item> they are evaluated in descending priority;
  \<^item> when the context names a store, a rule of that store is evaluated before every
    rule of the same priority that is not of that store;
  \<^item> when the active rules of the dealer have pairwise different priorities, and the
    users of each department that accept transfers have pairwise different transfer
    priorities, the result of \<open>route\<close> does not depend on that order.
\<close>

theorem getActiveRules_order:
  assumes "permutes (returnedRules pg)" and "permutes (returnedStoreRules pg)"
    and "permutes (returnedUsers pg)"
    and "permutes r" and "permutes r'" and "permutes u"
  shows "set (getActiveRules pg db dealerId storeId) = set (dealerRows db dealerId)
   \<and> sorted_wrt (\<lambda>a b. rule_priority a \<ge> rule_priority b) (getActiveRules pg db dealerId storeId)
   \<and> (given storeId \<and> a \<in> set (getActiveRules pg db dealerId storeId)
        \<and> rule_storeId a = storeId \<and> rule_storeId b \<noteq> storeId
        \<and> rule_priority b = rule_priority a
      \<longrightarrow> b \<notin> set (takeWhile (\<lambda>x. x \<noteq> a) (getActiveRules pg db dealerId storeId)))
   \<and> (distinct (map rule_priority (dealerRows db (ctx_dealerId context)))
        \<and> (\<forall>dealerId dep. distinct (map user_transferPriority (departmentRows db dealerId dep)))
      \<longrightarrow> route (pg\<lparr>returnedRules := r, returnedStoreRules := r', returnedUsers := u\<rparr>) db context
          = route pg db context)"
proof (intro conjI impI)
  show "set (getActiveRules pg db dealerId storeId) = set (dealerRows db dealerId)"
    by (rule getActiveRules_set [OF assms(1,2)])
  show "sorted_wrt (\<lambda>a b. rule_priority a \<ge> rule_priority b)
          (getActiveRules pg db dealerId storeId)"
    by (rule getActiveRules_sorted)
next
  assume "given storeId \<and> a \<in> set (getActiveRules pg db dealerId storeId)
        \<and> rule_storeId a = storeId \<and> rule_storeId b \<noteq> storeId
        \<and> rule_priority b = rule_priority a"
  then show "b \<notin> set (takeWhile (\<lambda>x. x \<noteq> a) (getActiveRules pg db dealerId storeId))"
    using store_rules_first [OF assms(1,2), of storeId a db dealerId b] by simp
next
  assume h: "distinct (map rule_priority (dealerRows db (ctx_dealerId context)))
        \<and> (\<forall>dealerId dep. distinct (map user_transferPriority (departmentRows db dealerId dep)))"
  let ?pg = "pg\<lparr>returnedRules := r, returnedStoreRules := r', returnedUsers := u\<rparr>"
  from h have d: "distinct (map rule_priority (dealerRows db (ctx_dealerId context)))"
    and users: "\<forall>dealerId dep. distinct (map user_transferPriority (departmentRows db dealerId dep))"
    by simp_all
  have "permutes (returnedRules ?pg)" "permutes (returnedStoreRules ?pg)"
    using assms(4,5) by simp_all
  then have "getActiveRules ?pg db (ctx_dealerId context) (ctx_storeId context)
             = getActiveRules pg db (ctx_dealerId context) (ctx_storeId context)"
    using assms(1,2) d by (intro getActiveRules_unique)
  then show "route ?pg db context = route pg db context"
    by (simp add: route_def Let_def routeRules_order [OF assms(3,6) users])
qed

text \<open>
  The amended statement at a dealer-wide rule stored before a rule of store
  \<open>s1\<close>, both of priority 5, with a database that returns rows in reverse, and at
  two rules of different priorities, the upper one routed to a department with two
  reps of different transfer priorities.
\<close>

theorem getActiveRules_order_witness:
  "permutes (returnedRules reverseDriver) \<and> permutes (returnedStoreRules reverseDriver)
   \<and> permutes (returnedUsers reverseDriver)
   \<and> permutes (rev :: routingRule list \<Rightarrow> routingRule list)
   \<and> permutes (rev :: dealerUser list \<Rightarrow> dealerUser list)
   \<and> given (Some ''s1'')
   \<and> map rule_id (getActiveRules reverseDriver storeDb ''d1'' (Some ''s1''))
       = [''local'', ''local'', ''wide'']
   \<and> exampleRule ''wide'' 5 [] ''voicemail'' None
       \<notin> set (takeWhile
                (\<lambda>x. x \<noteq> (exampleRule ''local'' 5 [] ''voicemail'' None)\<lparr>rule_storeId := Some ''s1''\<rparr>)
                (getActiveRules reverseDriver storeDb ''d1'' (Some ''s1'')))
   \<and> distinct (map rule_priority (dealerRows rankedDb ''d1''))
   \<and> (\<forall>dealerId dep. distinct (map user_transferPriority (departmentRows rankedDb dealerId dep)))
   \<and> route storageDriver rankedDb (exampleContext ''new'')
       = Inr (userTarget ((exampleUser ''repA'' ''active'')\<lparr>user_transferPriority := Some 2\<rparr>))
   \<and> route (storageDriver\<lparr>returnedRules := rev, returnedStoreRules := rev, returnedUsers := rev\<rparr>)
         rankedDb (exampleContext ''new'')
       = Inr (userTarget ((exampleUser ''repA'' ''active'')\<lparr>user_transferPriority := Some 2\<rparr>))"
proof -
  note p = reverseDriver_permutes(1)
  note p' = reverseDriver_permutes(4)
  note pu = reverseDriver_permutes(2)
  have pr: "permutes (rev :: routingRule list \<Rightarrow> routingRule list)"
    by (simp add: permutes_def)
  have ur: "permutes (rev :: dealerUser list \<Rightarrow> dealerUser list)"
    by (simp add: permutes_def)
  have g: "given (Some ''s1'')" by (simp add: given_def)
  have l: "map rule_id (getActiveRules reverseDriver storeDb ''d1'' (Some ''s1''))
       = [''local'', ''local'', ''wide'']"
    by (simp add: getActiveRules_def given_def orderByDesc_def storeDb_def emptyDb_def
        exampleRule_def reverseDriver_def eqCol_def)
  have m: "(exampleRule ''local'' 5 [] ''voicemail'' None)\<lparr>rule_storeId := Some ''s1''\<rparr>
           \<in> set (getActiveRules reverseDriver storeDb ''d1'' (Some ''s1''))"
    by (simp add: getActiveRules_def given_def orderByDesc_def storeDb_def emptyDb_def
        exampleRule_def reverseDriver_def eqCol_def)
  have w: "exampleRule ''wide'' 5 [] ''voicemail'' None
       \<notin> set (takeWhile
                (\<lambda>x. x \<noteq> (exampleRule ''local'' 5 [] ''voicemail'' None)\<lparr>rule_storeId := Some ''s1''\<rparr>)
                (getActiveRules reverseDriver storeDb ''d1'' (Some ''s1'')))"
    using getActiveRules_order [OF p p' pu pr pr ur, of storeDb "''d1''" "Some ''s1''"
        "(exampleRule ''local'' 5 [] ''voicemail'' None)\<lparr>rule_storeId := Some ''s1''\<rparr>"
        "exampleRule ''wide'' 5 [] ''voicemail'' None"] g m
    by (simp add: exampleRule_def)
  have d: "distinct (map rule_priority (dealerRows rankedDb ''d1''))"
    by (simp add: dealerRows_def rankedDb_def emptyDb_def exampleRule_def)
  have du: "\<forall>dealerId dep. distinct (map user_transferPriority (departmentRows rankedDb dealerId dep))"
    by (simp add: departmentRows_def rankedDb_def emptyDb_def exampleUser_def)
  have v: "route storageDriver rankedDb (exampleContext ''new'')
       = Inr (userTarget ((exampleUser ''repA'' ''active'')\<lparr>user_transferPriority := Some 2\<rparr>))"
    by (simp add: route_def getActiveRules_def given_def orderByDesc_def rankedDb_def emptyDb_def
        exampleRule_def exampleContext_def evaluateRuleConditions_def evaluateCondition_def
        contextProperties_def optional_def js_get_def resolveRuleTarget_def
        findAvailableUserByDepartment_def usersOfDepartment_def orderByDescNullable_def
        exampleUser_def eqCol_def storageDriver_def)
  have e: "route (storageDriver\<lparr>returnedRules := rev, returnedStoreRules := rev,
                                returnedUsers := rev\<rparr>) rankedDb (exampleContext ''new'')
       = route storageDriver rankedDb (exampleContext ''new'')"
    using getActiveRules_order [OF storageDriver_permutes(1) storageDriver_permutes(4)
        storageDriver_permutes(2) pr pr ur, of rankedDb _ _ _ _ "exampleContext ''new''"] d du
    by (simp add: exampleContext_def)
  from p p' pu pr ur g l w d du v e show ?thesis by simp
qed

subsection \<open>Provider status translation\<close>

lemma mapSignalWireStatus_table:
  "mapSignalWireStatus ''queued'' = JStr ''initiated''"
  "mapSignalWireStatus ''initiated'' = JStr ''initiated''"
  "mapSignalWireStatus ''ringing'' = JStr ''ringing''"
  "mapSignalWireStatus ''in-progress'' = JStr ''answered''"
  "mapSignalWireStatus ''completed'' = JStr ''completed''"
  "mapSignalWireStatus ''failed'' = JStr ''failed''"
  "mapSignalWireStatus ''busy'' = JStr ''busy''"
  "mapSignalWireStatus ''no-answer'' = JStr ''no_answer''"
  "mapSignalWireStatus ''canceled'' = JStr ''failed''"
  by (simp_all add: mapSignalWireStatus_def js_get_def statusMap_def)

lemma mapSignalWireStatus_other:
  assumes "s \<notin> fst ` set statusMap" and "s \<notin> set objectPrototypeKeys"
  shows "mapSignalWireStatus s = JStr ''initiated''"
proof -
  from assms(1) have "map_of statusMap s = None"
    by (simp add: map_of_eq_None_iff)
  with assms(2) show ?thesis
    by (simp add: mapSignalWireStatus_def js_get_def)
qed

text \<open>
  C10.  The status written for a provider status outside the table is meant to be
  \<open>initiated\<close>.  For the provider status \<open>constructor\<close> the table lookup finds the
  member inherited from \<open>Object.prototype\<close>, which is truthy, so the function
  returns that member and not \<open>initiated\<close>.
\<close>

theorem mapSignalWireStatus_inherited_key:
  "mapSignalWireStatus ''constructor'' = JInherited ''constructor''
   \<and> mapSignalWireStatus ''constructor'' \<noteq> JStr ''initiated''
   \<and> ''constructor'' \<notin> fst ` set statusMap"
  by (simp add: mapSignalWireStatus_def js_get_def statusMap_def objectPrototypeKeys_def)

end
